theory Spec2Isabelle
  imports Main "HOL-Library.Multiset"
begin

section \<open>Data model\<close>

text \<open>
  The repository holds two servers over the same tables: \<^verbatim>\<open>server.js\<close> on SQLite
  (callbacks of \<^verbatim>\<open>db.get\<close>, \<^verbatim>\<open>db.run\<close>, \<^verbatim>\<open>db.all\<close>) and the production server on
  Supabase/PostgreSQL (\<^verbatim>\<open>supabase-schema.sql\<close>). Identifiers (INTEGER AUTOINCREMENT in
  SQLite, UUID in PostgreSQL) are natural numbers here. The identifiers of the
  membership rows, the columns \<^verbatim>\<open>joined_at\<close>, \<^verbatim>\<open>created_at\<close>, \<^verbatim>\<open>updated_at\<close> and the
  like/comment counters decide nothing in the handlers below and are left out of the rows.
\<close>

type_synonym user_id = nat
type_synonym fanclub_id = nat
type_synonym post_id = nat
type_synonym timestamp = nat

text \<open>\<^verbatim>\<open>visibility TEXT CHECK(visibility IN ('public', 'members')) DEFAULT 'public'\<close>\<close>

datatype visibility = Public | Members

text \<open>
  A JavaScript \<^verbatim>\<open>Date\<close> by its local-time fields: \<^verbatim>\<open>getFullYear()\<close>,
  \<^verbatim>\<open>getMonth()\<close> (0 to 11), \<^verbatim>\<open>getDate()\<close> (1 to 31) and the milliseconds within the day.
\<close>

record js_date =
  d_year :: int
  d_month :: nat
  d_date :: nat
  d_time :: nat

record fanclub =
  f_name :: string
  f_description :: "string option"
  f_monthly_fee :: int
  f_purpose :: string
  f_cover_image_url :: "string option"
  f_owner_id :: user_id
  f_member_count :: int

record membership =
  m_user_id :: user_id
  m_fanclub_id :: fanclub_id
  m_is_owner :: bool
  m_next_payment_date :: "js_date option"

record post =
  p_id :: post_id
  p_fanclub_id :: fanclub_id
  p_author_id :: user_id
  p_title :: string
  p_content :: string
  p_excerpt :: "string option"
  p_featured_image_url :: "string option"
  p_visibility :: visibility
  p_published_at :: timestamp

text \<open>
  The database: \<^verbatim>\<open>fanclubs\<close> is keyed by its primary key; \<^verbatim>\<open>fanclub_seq\<close> and
  \<^verbatim>\<open>post_seq\<close> are the largest identifiers handed out so far; \<^verbatim>\<open>memberships\<close> and
  \<^verbatim>\<open>posts\<close> are the rows in insertion order.
\<close>

record database =
  users :: "user_id set"
  fanclubs :: "fanclub_id \<rightharpoonup> fanclub"
  fanclub_seq :: nat
  memberships :: "membership list"
  posts :: "post list"
  post_seq :: nat

text \<open>
  The responses of the handlers that are not a success, by HTTP status. In the words of
  the specification: \<^verbatim>\<open>Missing_fields_400\<close> is ValidationError, \<^verbatim>\<open>Already_member_400\<close> is
  AlreadyMember, \<^verbatim>\<open>Cannot_leave_400\<close> (leave) and \<^verbatim>\<open>No_permission_403\<close> (publish) are
  Forbidden, \<^verbatim>\<open>Not_found_404\<close> is NotFound; \<^verbatim>\<open>Server_error_500\<close> is the answer to an
  error of the storage layer.
\<close>

datatype failure =
  Missing_fields_400
  | Already_member_400
  | Cannot_leave_400
  | No_permission_403
  | Not_found_404
  | Server_error_500

text \<open>
  Every storage call of a handler hands an \<^verbatim>\<open>err\<close> to its callback. The set of
  \<^verbatim>\<open>faults\<close> of a request holds the positions (1, 2, 3 in the order of the handler's
  text) of the statements the storage layer fails for a reason of its own (busy, I/O,
  network); a statement also fails when it violates a constraint of the schema.
\<close>

type_synonym faults = "nat set"

text \<open>JavaScript truthiness of a request field that is absent or a string.\<close>

definition truthy :: "string option \<Rightarrow> bool" where
  "truthy v = (case v of None \<Rightarrow> False | Some s \<Rightarrow> s \<noteq> [])"

section \<open>Date arithmetic of the join handler\<close>

text \<open>
  \<^verbatim>\<open>nextPaymentDate.setMonth(nextPaymentDate.getMonth() + 1)\<close>. ECMA-262 gives
  \<^verbatim>\<open>setMonth(m)\<close> the day \<^verbatim>\<open>MakeDay(year, m, date)\<close>: the months beyond 11 carry into the
  year, and the day is the one \<^verbatim>\<open>date - 1\<close> days after the first of that month.
  \<^verbatim>\<open>MakeDay_from\<close> walks those days forward a month at a time.
\<close>

definition leap_year :: "int \<Rightarrow> bool" where
  "leap_year y = (y mod 4 = 0 \<and> (y mod 100 \<noteq> 0 \<or> y mod 400 = 0))"

definition days_in_month :: "int \<Rightarrow> nat \<Rightarrow> nat" where
  "days_in_month y m =
     (if m = 1 then (if leap_year y then 29 else 28)
      else if m = 3 \<or> m = 5 \<or> m = 8 \<or> m = 10 then 30
      else 31)"

definition next_month :: "int \<times> nat \<Rightarrow> int \<times> nat" where
  "next_month ym = (if snd ym = 11 then (fst ym + 1, 0) else (fst ym, Suc (snd ym)))"

function MakeDay_from :: "int \<times> nat \<Rightarrow> nat \<Rightarrow> int \<times> nat \<times> nat" where
  "MakeDay_from ym d =
     (if days_in_month (fst ym) (snd ym) < d
      then MakeDay_from (next_month ym) (d - days_in_month (fst ym) (snd ym))
      else (fst ym, snd ym, d))"
  by pat_completeness auto
termination
  by (relation "measure (\<lambda>(ym, d). d)") (auto simp: days_in_month_def)

declare MakeDay_from.simps [simp del]

definition getMonth :: "js_date \<Rightarrow> nat" where
  "getMonth t = d_month t"

definition setMonth :: "js_date \<Rightarrow> nat \<Rightarrow> js_date" where
  "setMonth t mon =
     (case MakeDay_from (d_year t + int (mon div 12), mon mod 12) (d_date t) of
        (y, m, d) \<Rightarrow> t\<lparr>d_year := y, d_month := m, d_date := d\<rparr>)"

text \<open>The two lines of the join handler that compute \<^verbatim>\<open>nextPaymentDate\<close>.\<close>

definition nextPaymentDate :: "js_date \<Rightarrow> js_date" where
  "nextPaymentDate now = setMonth now (getMonth now + 1)"

section \<open>SQLite statements (server.js)\<close>

text \<open>
  SQLite enforces \<^verbatim>\<open>UNIQUE\<close>, \<^verbatim>\<open>NOT NULL\<close> and \<^verbatim>\<open>CHECK\<close>. It does not enforce
  \<^verbatim>\<open>FOREIGN KEY\<close> clauses unless \<^verbatim>\<open>PRAGMA foreign_keys = ON\<close> is issued on the
  connection, which server.js never does.
\<close>

text \<open>\<^verbatim>\<open>SELECT * FROM memberships WHERE user_id = ? AND fanclub_id = ?\<close> through \<^verbatim>\<open>db.get\<close>:
  the first row, if any.\<close>

definition select_membership :: "user_id \<Rightarrow> fanclub_id \<Rightarrow> database \<Rightarrow> membership option" where
  "select_membership u f db =
     find (\<lambda>m. m_user_id m = u \<and> m_fanclub_id m = f) (memberships db)"

text \<open>\<^verbatim>\<open>SELECT * FROM memberships WHERE user_id = ? AND fanclub_id = ? AND is_owner = TRUE\<close>\<close>

definition select_owner_membership :: "user_id \<Rightarrow> fanclub_id \<Rightarrow> database \<Rightarrow> membership option" where
  "select_owner_membership u f db =
     find (\<lambda>m. m_user_id m = u \<and> m_fanclub_id m = f \<and> m_is_owner m) (memberships db)"

text \<open>\<^verbatim>\<open>INSERT INTO memberships ...\<close>: refused by \<^verbatim>\<open>UNIQUE(user_id, fanclub_id)\<close>.\<close>

definition sqlite_insert_membership :: "bool \<Rightarrow> membership \<Rightarrow> database \<Rightarrow> database option" where
  "sqlite_insert_membership err row db =
     (if err \<or> select_membership (m_user_id row) (m_fanclub_id row) db \<noteq> None then None
      else Some (db\<lparr>memberships := memberships db @ [row]\<rparr>))"

text \<open>\<^verbatim>\<open>UPDATE fanclubs SET member_count = member_count + delta WHERE id = ?\<close>\<close>

definition sqlite_update_member_count :: "bool \<Rightarrow> fanclub_id \<Rightarrow> int \<Rightarrow> database \<Rightarrow> database" where
  "sqlite_update_member_count err f delta db =
     (if err then db
      else case fanclubs db f of
        None \<Rightarrow> db
      | Some fc \<Rightarrow> db\<lparr>fanclubs := (fanclubs db)(f \<mapsto> fc\<lparr>f_member_count := f_member_count fc + delta\<rparr>)\<rparr>)"

text \<open>\<^verbatim>\<open>DELETE FROM memberships WHERE user_id = ? AND fanclub_id = ? AND is_owner = FALSE\<close>:
  the number of rows deleted (\<^verbatim>\<open>this.changes\<close>) and the database left.\<close>

definition leaving_row :: "user_id \<Rightarrow> fanclub_id \<Rightarrow> membership \<Rightarrow> bool" where
  "leaving_row u f m = (m_user_id m = u \<and> m_fanclub_id m = f \<and> \<not> m_is_owner m)"

definition delete_membership :: "user_id \<Rightarrow> fanclub_id \<Rightarrow> database \<Rightarrow> nat \<times> database" where
  "delete_membership u f db =
     (length (filter (leaving_row u f) (memberships db)),
      db\<lparr>memberships := filter (\<lambda>m. \<not> leaving_row u f m) (memberships db)\<rparr>)"

section \<open>Membership handlers on SQLite\<close>

text \<open>
  \<^verbatim>\<open>POST /api/fanclubs/:id/join\<close> (server.js). The handler is two callbacks: the lookup
  of an existing membership, and the insert with the update of the counter in its callback.
  The identity \<^verbatim>\<open>userId\<close> is \<^verbatim>\<open>req.user.id\<close>, set by \<^verbatim>\<open>authenticateToken\<close>.
\<close>

definition sqlite_join_lookup :: "faults \<Rightarrow> user_id \<Rightarrow> fanclub_id \<Rightarrow> database \<Rightarrow> failure option" where
  "sqlite_join_lookup flt userId fanclubId db =
     (if 1 \<in> flt then Some Server_error_500
      else if select_membership userId fanclubId db \<noteq> None then Some Already_member_400
      else None)"

definition sqlite_join_insert ::
  "faults \<Rightarrow> js_date \<Rightarrow> user_id \<Rightarrow> fanclub_id \<Rightarrow> database \<Rightarrow> (failure + unit) \<times> database" where
  "sqlite_join_insert flt now userId fanclubId db =
     (case sqlite_insert_membership (2 \<in> flt)
             \<lparr>m_user_id = userId, m_fanclub_id = fanclubId, m_is_owner = False,
              m_next_payment_date = Some (nextPaymentDate now)\<rparr> db of
        None \<Rightarrow> (Inl Server_error_500, db)
      | Some db1 \<Rightarrow> (Inr (), sqlite_update_member_count (3 \<in> flt) fanclubId 1 db1))"

definition sqlite_join ::
  "faults \<Rightarrow> js_date \<Rightarrow> user_id \<Rightarrow> fanclub_id \<Rightarrow> database \<Rightarrow> (failure + unit) \<times> database" where
  "sqlite_join flt now userId fanclubId db =
     (case sqlite_join_lookup flt userId fanclubId db of
        Some e \<Rightarrow> (Inl e, db)
      | None \<Rightarrow> sqlite_join_insert flt now userId fanclubId db)"

text \<open>\<^verbatim>\<open>DELETE /api/fanclubs/:id/leave\<close> (server.js).\<close>

definition sqlite_leave ::
  "faults \<Rightarrow> user_id \<Rightarrow> fanclub_id \<Rightarrow> database \<Rightarrow> (failure + unit) \<times> database" where
  "sqlite_leave flt userId fanclubId db =
     (if 1 \<in> flt then (Inl Server_error_500, db)
      else case delete_membership userId fanclubId db of
        (changes, db1) \<Rightarrow>
          if changes = 0 then (Inl Cannot_leave_400, db)
          else (Inr (), sqlite_update_member_count (2 \<in> flt) fanclubId (- 1) db1))"

section \<open>PostgreSQL statements (supabase-schema.sql)\<close>

text \<open>
  PostgreSQL enforces the \<^verbatim>\<open>REFERENCES\<close> clauses as well. \<^verbatim>\<open>.single()\<close> of the
  Supabase client gives the row when the query has exactly one, and \<^verbatim>\<open>null\<close> otherwise.
  Row level security is off, as the repository's script for the development database
  leaves it: the server connects with the anonymous key, for which the policies of the
  schema would refuse every write.
\<close>

definition supabase_single :: "('a \<Rightarrow> bool) \<Rightarrow> 'a list \<Rightarrow> 'a option" where
  "supabase_single P rows = (case filter P rows of [r] \<Rightarrow> Some r | _ \<Rightarrow> None)"

definition pg_insert_membership :: "bool \<Rightarrow> membership \<Rightarrow> database \<Rightarrow> database option" where
  "pg_insert_membership err row db =
     (if err \<or> m_user_id row \<notin> users db \<or> fanclubs db (m_fanclub_id row) = None
         \<or> select_membership (m_user_id row) (m_fanclub_id row) db \<noteq> None then None
      else Some (db\<lparr>memberships := memberships db @ [row]\<rparr>))"

text \<open>\<^verbatim>\<open>UPDATE fanclubs SET member_count = member_count + 1 WHERE id = fanclub_id\<close>\<close>

definition increment_member_count :: "fanclub_id \<Rightarrow> database \<Rightarrow> database" where
  "increment_member_count fanclub_id db =
     (case fanclubs db fanclub_id of
        None \<Rightarrow> db
      | Some fc \<Rightarrow>
          db\<lparr>fanclubs := (fanclubs db)(fanclub_id \<mapsto> fc\<lparr>f_member_count := f_member_count fc + 1\<rparr>)\<rparr>)"

text \<open>\<^verbatim>\<open>UPDATE fanclubs SET member_count = GREATEST(member_count - 1, 0) WHERE id = fanclub_id\<close>\<close>

definition decrement_member_count :: "fanclub_id \<Rightarrow> database \<Rightarrow> database" where
  "decrement_member_count fanclub_id db =
     (case fanclubs db fanclub_id of
        None \<Rightarrow> db
      | Some fc \<Rightarrow>
          db\<lparr>fanclubs :=
               (fanclubs db)(fanclub_id \<mapsto> fc\<lparr>f_member_count := max (f_member_count fc - 1) 0\<rparr>)\<rparr>)"

section \<open>Membership handlers on Supabase\<close>

text \<open>
  \<^verbatim>\<open>POST /api/fanclubs/:id/join\<close> of the production server. The error of the lookup is
  not read (\<^verbatim>\<open>const { data: existing } = ...\<close>): a failed lookup is a \<^verbatim>\<open>null\<close>.
\<close>

definition supabase_join ::
  "faults \<Rightarrow> js_date \<Rightarrow> user_id \<Rightarrow> fanclub_id \<Rightarrow> database \<Rightarrow> (failure + unit) \<times> database" where
  "supabase_join flt now userId fanclubId db =
     (let existing =
            (if 1 \<in> flt then None
             else supabase_single (\<lambda>m. m_user_id m = userId \<and> m_fanclub_id m = fanclubId)
                    (memberships db))
      in if existing \<noteq> None then (Inl Already_member_400, db)
         else case pg_insert_membership (2 \<in> flt)
                     \<lparr>m_user_id = userId, m_fanclub_id = fanclubId, m_is_owner = False,
                      m_next_payment_date = Some (nextPaymentDate now)\<rparr> db of
            None \<Rightarrow> (Inl Server_error_500, db)
          | Some db1 \<Rightarrow>
              (Inr (), if 3 \<in> flt then db1 else increment_member_count fanclubId db1))"

text \<open>
  \<^verbatim>\<open>DELETE /api/fanclubs/:id/leave\<close> of the production server: the number of rows the
  delete removed is not read before \<^verbatim>\<open>decrement_member_count\<close> is called.
\<close>

definition supabase_leave ::
  "faults \<Rightarrow> user_id \<Rightarrow> fanclub_id \<Rightarrow> database \<Rightarrow> (failure + unit) \<times> database" where
  "supabase_leave flt userId fanclubId db =
     (if 1 \<in> flt then (Inl Server_error_500, db)
      else let db1 = snd (delete_membership userId fanclubId db)
           in (Inr (), if 2 \<in> flt then db1 else decrement_member_count fanclubId db1))"

section \<open>Creating a fanclub\<close>

record fanclub_body =
  b_name :: "string option"
  b_description :: "string option"
  b_monthly_fee :: "int option"
  b_purpose :: "string option"
  b_cover_image_url :: "string option"

text \<open>\<^verbatim>\<open>monthly_fee || 0\<close>\<close>

definition fee_or_zero :: "int option \<Rightarrow> int" where
  "fee_or_zero v = (case v of None \<Rightarrow> 0 | Some n \<Rightarrow> n)"

text \<open>The inserted row; \<^verbatim>\<open>member_count INTEGER DEFAULT 1\<close> is not among the columns given.\<close>

definition new_fanclub :: "user_id \<Rightarrow> fanclub_body \<Rightarrow> fanclub" where
  "new_fanclub uid body =
     \<lparr>f_name = the (b_name body), f_description = b_description body,
      f_monthly_fee = fee_or_zero (b_monthly_fee body), f_purpose = the (b_purpose body),
      f_cover_image_url = b_cover_image_url body, f_owner_id = uid, f_member_count = 1\<rparr>"

definition sqlite_insert_fanclub :: "bool \<Rightarrow> fanclub \<Rightarrow> database \<Rightarrow> (fanclub_id \<times> database) option" where
  "sqlite_insert_fanclub err row db =
     (if err then None
      else let fid = Suc (fanclub_seq db)
           in Some (fid, db\<lparr>fanclubs := (fanclubs db)(fid \<mapsto> row), fanclub_seq := fid\<rparr>))"

definition pg_insert_fanclub :: "bool \<Rightarrow> fanclub \<Rightarrow> database \<Rightarrow> (fanclub_id \<times> database) option" where
  "pg_insert_fanclub err row db =
     (if err \<or> f_owner_id row \<notin> users db then None
      else let fid = Suc (fanclub_seq db)
           in Some (fid, db\<lparr>fanclubs := (fanclubs db)(fid \<mapsto> row), fanclub_seq := fid\<rparr>))"

text \<open>
  \<^verbatim>\<open>POST /api/fanclubs\<close> (server.js): the error of the owner's membership insert is
  logged, and the response is 201 either way.
\<close>

definition sqlite_create_fanclub ::
  "faults \<Rightarrow> user_id \<Rightarrow> fanclub_body \<Rightarrow> database \<Rightarrow> (failure + fanclub_id) \<times> database" where
  "sqlite_create_fanclub flt uid body db =
     (if \<not> truthy (b_name body) \<or> \<not> truthy (b_purpose body) then (Inl Missing_fields_400, db)
      else case sqlite_insert_fanclub (1 \<in> flt) (new_fanclub uid body) db of
        None \<Rightarrow> (Inl Server_error_500, db)
      | Some (fanclubId, db1) \<Rightarrow>
          (Inr fanclubId,
           case sqlite_insert_membership (2 \<in> flt)
                  \<lparr>m_user_id = uid, m_fanclub_id = fanclubId, m_is_owner = True,
                   m_next_payment_date = None\<rparr> db1 of
             None \<Rightarrow> db1
           | Some db2 \<Rightarrow> db2))"

text \<open>\<^verbatim>\<open>POST /api/fanclubs\<close> of the production server: the result of the owner's
  membership insert is not read.\<close>

definition supabase_create_fanclub ::
  "faults \<Rightarrow> user_id \<Rightarrow> fanclub_body \<Rightarrow> database \<Rightarrow> (failure + fanclub_id) \<times> database" where
  "supabase_create_fanclub flt uid body db =
     (if \<not> truthy (b_name body) \<or> \<not> truthy (b_purpose body) then (Inl Missing_fields_400, db)
      else case pg_insert_fanclub (1 \<in> flt) (new_fanclub uid body) db of
        None \<Rightarrow> (Inl Server_error_500, db)
      | Some (fanclubId, db1) \<Rightarrow>
          (Inr fanclubId,
           case pg_insert_membership (2 \<in> flt)
                  \<lparr>m_user_id = uid, m_fanclub_id = fanclubId, m_is_owner = True,
                   m_next_payment_date = None\<rparr> db1 of
             None \<Rightarrow> db1
           | Some db2 \<Rightarrow> db2))"

text \<open>\<^verbatim>\<open>GET /api/fanclubs/:id\<close> (server.js), the one handler that answers 404.\<close>

definition sqlite_get_fanclub :: "faults \<Rightarrow> fanclub_id \<Rightarrow> database \<Rightarrow> failure + fanclub" where
  "sqlite_get_fanclub flt fanclubId db =
     (if 1 \<in> flt then Inl Server_error_500
      else case fanclubs db fanclubId of
        None \<Rightarrow> Inl Not_found_404
      | Some fc \<Rightarrow> if f_owner_id fc \<in> users db then Inr fc else Inl Not_found_404)"

section \<open>Publishing a post\<close>

record post_body =
  pb_title :: "string option"
  pb_content :: "string option"
  pb_excerpt :: "string option"
  pb_featured_image_url :: "string option"
  pb_visibility :: "string option"

text \<open>\<^verbatim>\<open>visibility || 'public'\<close>\<close>

definition visibility_or_public :: "string option \<Rightarrow> string" where
  "visibility_or_public v = (if truthy v then the v else ''public'')"

text \<open>\<^verbatim>\<open>CHECK(visibility IN ('public', 'members'))\<close>\<close>

definition check_visibility :: "string \<Rightarrow> visibility option" where
  "check_visibility s =
     (if s = ''public'' then Some Public else if s = ''members'' then Some Members else None)"

definition new_post ::
  "post_id \<Rightarrow> timestamp \<Rightarrow> fanclub_id \<Rightarrow> user_id \<Rightarrow> post_body \<Rightarrow> visibility \<Rightarrow> post" where
  "new_post pid now fanclubId uid body v =
     \<lparr>p_id = pid, p_fanclub_id = fanclubId, p_author_id = uid, p_title = the (pb_title body),
      p_content = the (pb_content body), p_excerpt = pb_excerpt body,
      p_featured_image_url = pb_featured_image_url body, p_visibility = v,
      p_published_at = now\<rparr>"

text \<open>\<^verbatim>\<open>INSERT INTO posts ...\<close>; \<^verbatim>\<open>published_at\<close> defaults to the database's clock.\<close>

definition sqlite_insert_post ::
  "bool \<Rightarrow> timestamp \<Rightarrow> fanclub_id \<Rightarrow> user_id \<Rightarrow> post_body \<Rightarrow> database \<Rightarrow> (post_id \<times> database) option" where
  "sqlite_insert_post err now fanclubId uid body db =
     (case check_visibility (visibility_or_public (pb_visibility body)) of
        None \<Rightarrow> None
      | Some v \<Rightarrow>
          if err then None
          else let pid = Suc (post_seq db)
               in Some (pid, db\<lparr>posts := posts db @ [new_post pid now fanclubId uid body v],
                                post_seq := pid\<rparr>))"

definition pg_insert_post ::
  "bool \<Rightarrow> timestamp \<Rightarrow> fanclub_id \<Rightarrow> user_id \<Rightarrow> post_body \<Rightarrow> database \<Rightarrow> (post_id \<times> database) option" where
  "pg_insert_post err now fanclubId uid body db =
     (if fanclubs db fanclubId = None \<or> uid \<notin> users db then None
      else sqlite_insert_post err now fanclubId uid body db)"

text \<open>\<^verbatim>\<open>POST /api/fanclubs/:id/posts\<close> (server.js).\<close>

definition sqlite_create_post ::
  "faults \<Rightarrow> timestamp \<Rightarrow> user_id \<Rightarrow> post_body \<Rightarrow> fanclub_id \<Rightarrow> database \<Rightarrow>
   (failure + post_id) \<times> database" where
  "sqlite_create_post flt now uid body fanclubId db =
     (if \<not> truthy (pb_title body) \<or> \<not> truthy (pb_content body) then (Inl Missing_fields_400, db)
      else if 1 \<in> flt then (Inl Server_error_500, db)
      else if select_owner_membership uid fanclubId db = None then (Inl No_permission_403, db)
      else case sqlite_insert_post (2 \<in> flt) now fanclubId uid body db of
        None \<Rightarrow> (Inl Server_error_500, db)
      | Some (pid, db1) \<Rightarrow> (Inr pid, db1))"

text \<open>\<^verbatim>\<open>POST /api/fanclubs/:id/posts\<close> of the production server.\<close>

definition supabase_create_post ::
  "faults \<Rightarrow> timestamp \<Rightarrow> user_id \<Rightarrow> post_body \<Rightarrow> fanclub_id \<Rightarrow> database \<Rightarrow>
   (failure + post_id) \<times> database" where
  "supabase_create_post flt now uid body fanclubId db =
     (if \<not> truthy (pb_title body) \<or> \<not> truthy (pb_content body) then (Inl Missing_fields_400, db)
      else let membership =
                 (if 1 \<in> flt then None
                  else supabase_single
                         (\<lambda>m. m_user_id m = uid \<and> m_fanclub_id m = fanclubId \<and> m_is_owner m)
                         (memberships db))
           in if membership = None then (Inl No_permission_403, db)
              else case pg_insert_post (2 \<in> flt) now fanclubId uid body db of
                 None \<Rightarrow> (Inl Server_error_500, db)
               | Some (pid, db1) \<Rightarrow> (Inr pid, db1))"

section \<open>Listing the posts of a fanclub\<close>

text \<open>
  \<^verbatim>\<open>GET /api/fanclubs/:id/posts\<close> is registered without \<^verbatim>\<open>authenticateToken\<close>. A request
  carries the identity its token would verify to, if it has one, and the
  \<^verbatim>\<open>user_id\<close> of its query string (an absent or empty parameter is \<^verbatim>\<open>None\<close>).
\<close>

record posts_request =
  verified_identity :: "user_id option"
  query_user_id :: "user_id option"

text \<open>\<^verbatim>\<open>ORDER BY p.published_at DESC\<close>\<close>

definition order_by_published_at_desc :: "post list \<Rightarrow> post list" where
  "order_by_published_at_desc ps = rev (sort_key p_published_at ps)"

text \<open>The \<^verbatim>\<open>WHERE\<close> clause the SQLite handler builds, with its \<^verbatim>\<open>JOIN users\<close>.\<close>

definition sqlite_posts_where :: "user_id option \<Rightarrow> fanclub_id \<Rightarrow> database \<Rightarrow> post \<Rightarrow> bool" where
  "sqlite_posts_where userId fanclubId db p =
     (p_author_id p \<in> users db \<and> p_fanclub_id p = fanclubId \<and>
      (case userId of
         Some uid \<Rightarrow>
           p_visibility p = Public \<or>
           (p_visibility p = Members \<and>
            (\<exists>m\<in>set (memberships db). m_user_id m = uid \<and> m_fanclub_id m = fanclubId))
       | None \<Rightarrow> p_visibility p = Public))"

definition sqlite_list_posts ::
  "faults \<Rightarrow> posts_request \<Rightarrow> fanclub_id \<Rightarrow> database \<Rightarrow> failure + post list" where
  "sqlite_list_posts flt req fanclubId db =
     (let userId = query_user_id req
      in if 1 \<in> flt then Inl Server_error_500
         else Inr (order_by_published_at_desc
                     (filter (sqlite_posts_where userId fanclubId db) (posts db))))"

text \<open>
  The production handler: statement 1 is the membership lookup (its error is not read),
  statement 2 the query of the posts. A post without its author's row has
  \<^verbatim>\<open>post.users\<close> null, and \<^verbatim>\<open>post.users.nickname\<close> throws into the \<^verbatim>\<open>catch\<close>.
\<close>

definition supabase_visible :: "faults \<Rightarrow> user_id option \<Rightarrow> fanclub_id \<Rightarrow> database \<Rightarrow> visibility list" where
  "supabase_visible flt userId fanclubId db =
     (case userId of
        Some uid \<Rightarrow>
          let membership =
                (if 1 \<in> flt then None
                 else supabase_single (\<lambda>m. m_user_id m = uid \<and> m_fanclub_id m = fanclubId)
                        (memberships db))
          in if membership \<noteq> None then [Public, Members] else [Public]
      | None \<Rightarrow> [Public])"

definition supabase_list_posts ::
  "faults \<Rightarrow> posts_request \<Rightarrow> fanclub_id \<Rightarrow> database \<Rightarrow> failure + post list" where
  "supabase_list_posts flt req fanclubId db =
     (let userId = query_user_id req;
          vis = supabase_visible flt userId fanclubId db
      in if 2 \<in> flt then Inl Server_error_500
         else let data = order_by_published_at_desc
                           (filter (\<lambda>p. p_fanclub_id p = fanclubId \<and> p_visibility p \<in> set vis)
                              (posts db))
              in if list_ex (\<lambda>p. p_author_id p \<notin> users db) data then Inl Server_error_500
                 else Inr data)"

section \<open>Sequences of membership operations\<close>

datatype membership_op = Join faults js_date user_id | Leave faults user_id

fun sqlite_step :: "fanclub_id \<Rightarrow> membership_op \<Rightarrow> database \<Rightarrow> (failure + unit) \<times> database" where
  "sqlite_step f (Join flt now u) db = sqlite_join flt now u f db"
| "sqlite_step f (Leave flt u) db = sqlite_leave flt u f db"

fun sqlite_run :: "fanclub_id \<Rightarrow> membership_op list \<Rightarrow> database \<Rightarrow> database" where
  "sqlite_run f [] db = db"
| "sqlite_run f (x # xs) db = sqlite_run f xs (snd (sqlite_step f x db))"

text \<open>Whether the request's \<^verbatim>\<open>UPDATE fanclubs SET member_count ...\<close> is one of its faults.\<close>

fun count_update_fails :: "membership_op \<Rightarrow> bool" where
  "count_update_fails (Join flt now u) = (3 \<in> flt)"
| "count_update_fails (Leave flt u) = (2 \<in> flt)"

section \<open>The properties of the specification\<close>

text \<open>The number of membership rows that reference a fanclub.\<close>

definition member_rows :: "fanclub_id \<Rightarrow> database \<Rightarrow> nat" where
  "member_rows f db = length (filter (\<lambda>m. m_fanclub_id m = f) (memberships db))"

text \<open>The stored counter of an existing fanclub equals the number of its rows.\<close>

definition count_consistent :: "fanclub_id \<Rightarrow> database \<Rightarrow> bool" where
  "count_consistent f db =
     (case fanclubs db f of
        None \<Rightarrow> False
      | Some fc \<Rightarrow> f_member_count fc = int (member_rows f db))"

text \<open>The stored \<^verbatim>\<open>member_count\<close> of a fanclub, if the fanclub exists.\<close>

definition stored_count :: "fanclub_id \<Rightarrow> database \<Rightarrow> int option" where
  "stored_count f db = map_option f_member_count (fanclubs db f)"

text \<open>\<^verbatim>\<open>UNIQUE(user_id, fanclub_id)\<close> as a property of the stored rows.\<close>

definition unique_memberships :: "database \<Rightarrow> bool" where
  "unique_memberships db = distinct (map (\<lambda>m. (m_user_id m, m_fanclub_id m)) (memberships db))"

text \<open>The lookups of the specification's MembershipLedger.\<close>

definition isMember_spec :: "database \<Rightarrow> user_id \<Rightarrow> fanclub_id \<Rightarrow> bool" where
  "isMember_spec db u f = (\<exists>m\<in>set (memberships db). m_user_id m = u \<and> m_fanclub_id m = f)"

definition isOwner_spec :: "database \<Rightarrow> user_id \<Rightarrow> fanclub_id \<Rightarrow> bool" where
  "isOwner_spec db u f =
     (\<exists>m\<in>set (memberships db). m_user_id m = u \<and> m_fanclub_id m = f \<and> m_is_owner m)"

text \<open>The specification's VisibilityGate, in its words: a public post always; a members'
  post never for the anonymous viewer, and for an identity iff it is a member.\<close>

definition canView_spec :: "database \<Rightarrow> user_id option \<Rightarrow> post \<Rightarrow> bool" where
  "canView_spec db viewer p =
     (case p_visibility p of
        Public \<Rightarrow> True
      | Members \<Rightarrow>
          (case viewer of None \<Rightarrow> False | Some u \<Rightarrow> isMember_spec db u (p_fanclub_id p)))"

text \<open>The specification's month arithmetic, in its words: the same day of the next
  month, clamped to the last valid day of that month.\<close>

definition add_month_clamped_spec :: "js_date \<Rightarrow> js_date" where
  "add_month_clamped_spec t =
     (let ym = next_month (d_year t, d_month t)
      in t\<lparr>d_year := fst ym, d_month := snd ym,
            d_date := min (d_date t) (days_in_month (fst ym) (snd ym))\<rparr>)"

text \<open>A date the calendar has.\<close>

definition valid_date :: "js_date \<Rightarrow> bool" where
  "valid_date t = (d_month t < 12 \<and> 1 \<le> d_date t \<and> d_date t \<le> days_in_month (d_year t) (d_month t))"

text \<open>The listing of the specification: the posts of the fanclub that the gate lets the
  viewer see.\<close>

definition visible_posts_spec :: "database \<Rightarrow> user_id option \<Rightarrow> fanclub_id \<Rightarrow> post list" where
  "visible_posts_spec db viewer f =
     filter (\<lambda>p. p_fanclub_id p = f \<and> canView_spec db viewer p) (posts db)"

text \<open>Ordered by \<^verbatim>\<open>published_at\<close>, descending.\<close>

definition published_desc :: "post list \<Rightarrow> bool" where
  "published_desc ps = sorted_wrt (\<lambda>p q. p_published_at q \<le> p_published_at p) ps"

text \<open>\<^verbatim>\<open>author_id ... REFERENCES users(id)\<close> as a property of the stored posts.\<close>

definition posts_have_authors :: "database \<Rightarrow> bool" where
  "posts_have_authors db = list_all (\<lambda>p. p_author_id p \<in> users db) (posts db)"

section \<open>Example data\<close>

definition jan31 :: js_date where
  "jan31 = \<lparr>d_year = 2025, d_month = 0, d_date = 31, d_time = 0\<rparr>"

definition dec15 :: js_date where
  "dec15 = \<lparr>d_year = 2025, d_month = 11, d_date = 15, d_time = 0\<rparr>"

definition club1 :: fanclub where
  "club1 = \<lparr>f_name = ''club'', f_description = None, f_monthly_fee = 500, f_purpose = ''fans'',
     f_cover_image_url = None, f_owner_id = 1, f_member_count = 1\<rparr>"

definition owner_row :: membership where
  "owner_row = \<lparr>m_user_id = 1, m_fanclub_id = 1, m_is_owner = True, m_next_payment_date = None\<rparr>"

text \<open>Fanclub 1 of user 1, as \<^verbatim>\<open>POST /api/fanclubs\<close> leaves it; users 2 and 3 have not joined.\<close>

definition example_db :: database where
  "example_db = \<lparr>users = {1, 2, 3}, fanclubs = [1 \<mapsto> club1], fanclub_seq = 1,
     memberships = [owner_row], posts = [], post_seq = 0\<rparr>"

definition example_ops :: "membership_op list" where
  "example_ops = [Join {} jan31 2, Join {2} jan31 3, Leave {} 1, Leave {} 2]"

text \<open>The same database after user 2 has joined fanclub 1.\<close>

definition joined_db :: database where
  "joined_db = snd (sqlite_join {} jan31 2 1 example_db)"

text \<open>Three users have signed up; nothing else is stored.\<close>

definition empty_db :: database where
  "empty_db = \<lparr>users = {1, 2, 3}, fanclubs = Map.empty, fanclub_seq = 0,
     memberships = [], posts = [], post_seq = 0\<rparr>"

definition club_body :: fanclub_body where
  "club_body = \<lparr>b_name = Some ''club'', b_description = None, b_monthly_fee = Some 500,
     b_purpose = Some ''fans'', b_cover_image_url = None\<rparr>"

definition public_post :: post where
  "public_post = \<lparr>p_id = 1, p_fanclub_id = 1, p_author_id = 1, p_title = ''hello'',
     p_content = ''for everyone'', p_excerpt = None, p_featured_image_url = None,
     p_visibility = Public, p_published_at = 10\<rparr>"

definition members_post :: post where
  "members_post = \<lparr>p_id = 2, p_fanclub_id = 1, p_author_id = 1, p_title = ''backstage'',
     p_content = ''for members'', p_excerpt = None, p_featured_image_url = None,
     p_visibility = Members, p_published_at = 20\<rparr>"

text \<open>Fanclub 1 with its owner 1, the member 2, a public post and a later members' post.\<close>

definition posts_db :: database where
  "posts_db = joined_db\<lparr>posts := [public_post, members_post], post_seq := 2\<rparr>"

text \<open>Requests for the posts: without a token and without \<^verbatim>\<open>user_id\<close>; without a token
  and with \<^verbatim>\<open>user_id=2\<close>; with the token of user 3 and \<^verbatim>\<open>user_id=2\<close>; with the token of
  the member 2 and without \<^verbatim>\<open>user_id\<close>.\<close>

definition anonymous_request :: posts_request where
  "anonymous_request = \<lparr>verified_identity = None, query_user_id = None\<rparr>"

definition forged_request :: posts_request where
  "forged_request = \<lparr>verified_identity = None, query_user_id = Some 2\<rparr>"

definition outsider_request :: posts_request where
  "outsider_request = \<lparr>verified_identity = Some 3, query_user_id = Some 2\<rparr>"

definition member_request :: posts_request where
  "member_request = \<lparr>verified_identity = Some 2, query_user_id = None\<rparr>"

text \<open>Request bodies of a post: with the visibility \<^verbatim>\<open>members\<close>, and without one.\<close>

definition members_body :: post_body where
  "members_body = \<lparr>pb_title = Some ''news'', pb_content = Some ''text'', pb_excerpt = None,
     pb_featured_image_url = None, pb_visibility = Some ''members''\<rparr>"

definition plain_body :: post_body where
  "plain_body = \<lparr>pb_title = Some ''news'', pb_content = Some ''text'', pb_excerpt = None,
     pb_featured_image_url = None, pb_visibility = None\<rparr>"

lemmas sqlite_membership_defs =
  sqlite_join_def sqlite_join_lookup_def sqlite_join_insert_def sqlite_insert_membership_def
  sqlite_update_member_count_def sqlite_leave_def delete_membership_def leaving_row_def
  select_membership_def

lemmas example_defs = example_db_def club1_def owner_row_def

lemmas posts_example_defs =
  posts_db_def joined_db_def public_post_def members_post_def anonymous_request_def
  forged_request_def outsider_request_def member_request_def

section \<open>The member counter on SQLite\<close>

lemma find_None_iff_all: "(find P xs = None) = (\<forall>x\<in>set xs. \<not> P x)"
  by (induction xs) auto

lemma distinct_key_filter_le1:
  "distinct (map k xs) \<Longrightarrow> length (filter (\<lambda>x. k x = a \<and> P x) xs) \<le> 1"
proof (induction xs)
  case Nil
  then show ?case by simp
next
  case (Cons x xs)
  show ?case
  proof (cases "k x = a")
    case True
    with Cons.prems have "\<forall>y\<in>set xs. k y \<noteq> a" by (auto simp: image_iff)
    then have "filter (\<lambda>x. k x = a \<and> P x) xs = []" by (auto simp: filter_empty_conv)
    then show ?thesis by simp
  next
    case False
    with Cons show ?thesis by simp
  qed
qed

lemma length_filter_split:
  "length (filter P xs) =
   length (filter (\<lambda>x. P x \<and> Q x) xs) + length (filter (\<lambda>x. P x \<and> \<not> Q x) xs)"
  by (induction xs) auto

lemma sqlite_join_failed_unchanged:
  "fst (sqlite_join flt now u f db) = Inl e \<Longrightarrow> snd (sqlite_join flt now u f db) = db"
  by (auto simp: sqlite_join_def sqlite_join_insert_def split: option.splits)

lemma sqlite_leave_failed_unchanged:
  "fst (sqlite_leave flt u f db) = Inl e \<Longrightarrow> snd (sqlite_leave flt u f db) = db"
  by (auto simp: sqlite_leave_def split: prod.splits if_splits)

lemma sqlite_step_failed_unchanged:
  "fst (sqlite_step f x db) = Inl e \<Longrightarrow> snd (sqlite_step f x db) = db"
  by (cases x) (simp_all add: sqlite_join_failed_unchanged sqlite_leave_failed_unchanged)

lemma sqlite_join_consistent:
  assumes "count_consistent f db" "unique_memberships db" "3 \<notin> flt"
  shows "count_consistent f (snd (sqlite_join flt now u f db)) \<and>
         unique_memberships (snd (sqlite_join flt now u f db))"
  using assms
  by (auto simp: sqlite_join_def sqlite_join_lookup_def sqlite_join_insert_def
      sqlite_insert_membership_def sqlite_update_member_count_def count_consistent_def
      unique_memberships_def member_rows_def select_membership_def find_None_iff_all image_iff
      split: option.splits)

lemma sqlite_update_member_count_rows:
  "memberships (sqlite_update_member_count err f d db) = memberships db"
  by (simp add: sqlite_update_member_count_def split: option.splits)

lemma delete_membership_one:
  assumes "unique_memberships db" and "filter (leaving_row u f) (memberships db) \<noteq> []"
  shows "fst (delete_membership u f db) = 1 \<and>
         member_rows f (snd (delete_membership u f db)) + 1 = member_rows f db"
proof -
  let ?ms = "memberships db"
  let ?k = "\<lambda>m. (m_user_id m, m_fanclub_id m)"
  have lr: "leaving_row u f = (\<lambda>m. ?k m = (u, f) \<and> \<not> m_is_owner m)"
    by (auto simp: leaving_row_def fun_eq_iff)
  have "length (filter (leaving_row u f) ?ms) \<le> 1"
    unfolding lr using assms(1)
    by (intro distinct_key_filter_le1) (simp add: unique_memberships_def)
  with assms(2) have one: "length (filter (leaving_row u f) ?ms) = 1"
    by (cases "filter (leaving_row u f) ?ms") auto
  have split: "length (filter (\<lambda>m. m_fanclub_id m = f) ?ms) =
      length (filter (\<lambda>m. m_fanclub_id m = f \<and> leaving_row u f m) ?ms) +
      length (filter (\<lambda>m. m_fanclub_id m = f \<and> \<not> leaving_row u f m) ?ms)"
    by (rule length_filter_split)
  have same: "filter (\<lambda>m. m_fanclub_id m = f \<and> leaving_row u f m) ?ms =
      filter (leaving_row u f) ?ms"
    by (rule filter_cong) (auto simp: leaving_row_def)
  show ?thesis
    using split one same by (simp add: member_rows_def delete_membership_def conj_commute)
qed

lemma sqlite_leave_consistent:
  assumes "count_consistent f db" "unique_memberships db" "2 \<notin> flt"
  shows "count_consistent f (snd (sqlite_leave flt u f db)) \<and>
         unique_memberships (snd (sqlite_leave flt u f db))"
proof (cases "1 \<in> flt \<or> filter (leaving_row u f) (memberships db) = []")
  case True
  then have "snd (sqlite_leave flt u f db) = db"
    by (auto simp: sqlite_leave_def delete_membership_def)
  with assms show ?thesis by simp
next
  case False
  then have ne: "filter (leaving_row u f) (memberships db) \<noteq> []" by simp
  note one = delete_membership_one [OF assms(2) ne]
  have uniq: "unique_memberships (snd (delete_membership u f db))"
    using assms(2) by (simp add: unique_memberships_def delete_membership_def distinct_map_filter)
  from False one have res: "snd (sqlite_leave flt u f db) =
      sqlite_update_member_count False f (- 1) (snd (delete_membership u f db))"
    using assms(3) by (cases "delete_membership u f db") (simp add: sqlite_leave_def)
  have fc: "fanclubs (snd (delete_membership u f db)) = fanclubs db"
    by (simp add: delete_membership_def)
  show ?thesis
    using assms(1) one uniq fc unfolding res
    by (auto simp: count_consistent_def sqlite_update_member_count_def member_rows_def
        unique_memberships_def split: option.splits)
qed

lemma sqlite_step_consistent:
  "count_consistent f db \<Longrightarrow> unique_memberships db \<Longrightarrow> \<not> count_update_fails x \<Longrightarrow>
   count_consistent f (snd (sqlite_step f x db)) \<and> unique_memberships (snd (sqlite_step f x db))"
  by (cases x) (simp_all add: sqlite_join_consistent sqlite_leave_consistent)

lemma sqlite_run_consistent:
  "count_consistent f db \<Longrightarrow> unique_memberships db \<Longrightarrow> \<not> list_ex count_update_fails ops \<Longrightarrow>
   count_consistent f (sqlite_run f ops db) \<and> unique_memberships (sqlite_run f ops db)"
proof (induction ops arbitrary: db)
  case Nil
  then show ?case by simp
next
  case (Cons x xs)
  from Cons.prems have "count_consistent f (snd (sqlite_step f x db)) \<and>
      unique_memberships (snd (sqlite_step f x db))"
    by (intro sqlite_step_consistent) simp_all
  with Cons.IH [of "snd (sqlite_step f x db)"] Cons.prems show ?case by simp
qed

text \<open>
  C3, as the code has it. The claim: for every sequence of join and leave operations
  against a fanclub, the stored \<^verbatim>\<open>member_count\<close> equals the number of membership rows of
  the fanclub, every insert or delete of a row being one atomic unit with its change of
  the counter, and a failed operation changing neither. On SQLite the row and the counter
  are written by two statements, and an error of the second is only logged. What holds:
  from a database where the counter of the existing fanclub \<open>f\<close> equals the number of its
  rows and the rows are unique per (user, fanclub), every sequence of join and leave
  requests against \<open>f\<close> in which no \<^verbatim>\<open>UPDATE\<close> of the counter fails (any other statement
  may fail) ends with the counter equal to the number of rows; and a request answered
  with a failure leaves the database as it was, whatever fails.
\<close>

theorem sqlite_member_count_invariant:
  assumes "count_consistent f db" and "unique_memberships db"
    and "\<not> list_ex count_update_fails ops"
  shows "count_consistent f (sqlite_run f ops db) \<and>
         (\<forall>x d e. fst (sqlite_step f x d) = Inl e \<longrightarrow> snd (sqlite_step f x d) = d)"
  using sqlite_run_consistent [OF assms] sqlite_step_failed_unchanged by blast

text \<open>Witness: fanclub 1 with its owner; user 2 joins, user 3's insert fails, the owner's
  leave is refused, user 2 leaves.\<close>

theorem sqlite_member_count_invariant_witness:
  "count_consistent 1 example_db \<and> unique_memberships example_db \<and>
   \<not> list_ex count_update_fails example_ops \<and>
   count_consistent 1 (sqlite_run 1 example_ops example_db) \<and>
   fst (sqlite_step 1 (Leave {} 1) example_db) = Inl Cannot_leave_400 \<and>
   snd (sqlite_step 1 (Leave {} 1) example_db) = example_db"
proof -
  have h1: "count_consistent 1 example_db"
    by (simp add: count_consistent_def member_rows_def example_defs)
  have h2: "unique_memberships example_db"
    by (simp add: unique_memberships_def example_defs)
  have h3: "\<not> list_ex count_update_fails example_ops"
    by (simp add: example_ops_def)
  have h4: "fst (sqlite_step 1 (Leave {} 1) example_db) = Inl Cannot_leave_400"
    by (simp add: sqlite_membership_defs example_defs)
  from sqlite_member_count_invariant [OF h1 h2 h3] h1 h2 h3 h4 show ?thesis by blast
qed

text \<open>Counterexample to C3 as stated: user 2 joins fanclub 1 and the \<^verbatim>\<open>UPDATE\<close> of the
  counter (statement 3) fails. The answer is the success, the fanclub has two rows, and its
  \<^verbatim>\<open>member_count\<close> is still 1.\<close>

theorem sqlite_member_count_drift:
  "count_consistent 1 example_db \<and>
   fst (sqlite_join {3} jan31 2 1 example_db) = Inr () \<and>
   member_rows 1 (snd (sqlite_join {3} jan31 2 1 example_db)) = 2 \<and>
   map_option f_member_count (fanclubs (snd (sqlite_join {3} jan31 2 1 example_db)) 1) = Some 1 \<and>
   \<not> count_consistent 1 (snd (sqlite_join {3} jan31 2 1 example_db))"
  by (simp add: count_consistent_def member_rows_def sqlite_membership_defs example_defs)

section \<open>Joining on SQLite\<close>

lemma select_membership_isMember:
  "(select_membership u f db = None) = (\<not> isMember_spec db u f)"
  by (auto simp: select_membership_def isMember_spec_def find_None_iff_all)

lemma sqlite_join_already_member:
  "1 \<notin> flt \<Longrightarrow> isMember_spec db u f \<Longrightarrow>
   sqlite_join flt now u f db = (Inl Already_member_400, db)"
  by (simp add: sqlite_join_def sqlite_join_lookup_def select_membership_isMember)

lemma sqlite_join_never_not_found:
  "fst (sqlite_join flt now u f db) \<noteq> Inl Not_found_404"
  by (auto simp: sqlite_join_def sqlite_join_lookup_def sqlite_join_insert_def
      split: option.splits)

lemma sqlite_join_new_member:
  "\<not> isMember_spec db u f \<Longrightarrow> 1 \<notin> flt \<Longrightarrow> 2 \<notin> flt \<Longrightarrow>
   fst (sqlite_join flt now u f db) = Inr () \<and>
   memberships (snd (sqlite_join flt now u f db)) =
     memberships db @ [\<lparr>m_user_id = u, m_fanclub_id = f, m_is_owner = False,
                        m_next_payment_date = Some (nextPaymentDate now)\<rparr>]"
  by (simp add: sqlite_join_def sqlite_join_lookup_def sqlite_join_insert_def
      sqlite_insert_membership_def select_membership_isMember sqlite_update_member_count_rows)

text \<open>SQLite does not enforce the reference to \<^verbatim>\<open>fanclubs\<close>: a join to an identifier
  that no fanclub has stores the row and answers the success.\<close>

lemma sqlite_join_missing_fanclub:
  "fanclubs db f = None \<Longrightarrow> \<not> isMember_spec db u f \<Longrightarrow> 1 \<notin> flt \<Longrightarrow> 2 \<notin> flt \<Longrightarrow>
   sqlite_join flt now u f db =
     (Inr (), db\<lparr>memberships := memberships db @
        [\<lparr>m_user_id = u, m_fanclub_id = f, m_is_owner = False,
          m_next_payment_date = Some (nextPaymentDate now)\<rparr>]\<rparr>)"
  by (simp add: sqlite_join_def sqlite_join_lookup_def sqlite_join_insert_def
      sqlite_insert_membership_def sqlite_update_member_count_def select_membership_isMember)

lemma sqlite_join_success_isMember:
  "fst (sqlite_join flt now u f db) = Inr () \<Longrightarrow>
   isMember_spec (snd (sqlite_join flt now u f db)) u f"
  by (auto simp: sqlite_join_def sqlite_join_insert_def sqlite_insert_membership_def
      isMember_spec_def sqlite_update_member_count_rows split: option.splits if_splits)

lemma sqlite_join_insert_success_isMember:
  "fst (sqlite_join_insert flt now u f db) = Inr () \<Longrightarrow>
   isMember_spec (snd (sqlite_join_insert flt now u f db)) u f"
  by (auto simp: sqlite_join_insert_def sqlite_insert_membership_def
      isMember_spec_def sqlite_update_member_count_rows split: option.splits if_splits)

lemma sqlite_join_insert_duplicate:
  "isMember_spec db u f \<Longrightarrow> sqlite_join_insert flt now u f db = (Inl Server_error_500, db)"
  by (simp add: sqlite_join_insert_def sqlite_insert_membership_def select_membership_isMember)

lemma supabase_join_never_not_found:
  "fst (supabase_join flt now u f db) \<noteq> Inl Not_found_404"
  by (auto simp: supabase_join_def Let_def split: option.splits)

text \<open>
  C4, as the code has it. The claim: \<^verbatim>\<open>join(u, f)\<close> fails with AlreadyMember when the
  pair has a membership, fails with NotFound when the fanclub does not exist, and of two
  calls, sequential or concurrent, exactly one succeeds and the other fails with
  AlreadyMember. Neither handler looks the fanclub up. What holds: on SQLite, when the
  lookup does not fail, a join of a member is answered \<^verbatim>\<open>Already_member_400\<close> and changes
  nothing; no join, on either server, is answered \<^verbatim>\<open>Not_found_404\<close>; a join of a
  non-member to an existing fanclub whose lookup and insert do not fail succeeds, and a
  second join after a successful one is answered \<^verbatim>\<open>Already_member_400\<close>; when a second
  request has passed its lookup before the first one inserts, its own insert is refused
  by \<^verbatim>\<open>UNIQUE(user_id, fanclub_id)\<close> and it is answered \<^verbatim>\<open>Server_error_500\<close>, so again
  exactly one succeeds.
\<close>

theorem sqlite_join_outcomes:
  "(1 \<notin> flt \<and> isMember_spec db u f \<longrightarrow>
      sqlite_join flt now u f db = (Inl Already_member_400, db)) \<and>
   fst (sqlite_join flt now u f db) \<noteq> Inl Not_found_404 \<and>
   fst (supabase_join flt now u f db) \<noteq> Inl Not_found_404 \<and>
   (fanclubs db f \<noteq> None \<and> \<not> isMember_spec db u f \<and> 1 \<notin> flt \<and> 2 \<notin> flt \<longrightarrow>
      fst (sqlite_join flt now u f db) = Inr ()) \<and>
   (fst (sqlite_join flt now u f db) = Inr () \<and> 1 \<notin> flt' \<longrightarrow>
      sqlite_join flt' now' u f (snd (sqlite_join flt now u f db)) =
        (Inl Already_member_400, snd (sqlite_join flt now u f db))) \<and>
   (sqlite_join_lookup flt' u f db = None \<and> fst (sqlite_join_insert flt now u f db) = Inr () \<longrightarrow>
      sqlite_join_insert flt' now' u f (snd (sqlite_join_insert flt now u f db)) =
        (Inl Server_error_500, snd (sqlite_join_insert flt now u f db)))"
proof (intro conjI impI)
  assume "1 \<notin> flt \<and> isMember_spec db u f"
  then show "sqlite_join flt now u f db = (Inl Already_member_400, db)"
    by (simp add: sqlite_join_already_member)
next
  show "fst (sqlite_join flt now u f db) \<noteq> Inl Not_found_404"
    by (rule sqlite_join_never_not_found)
next
  show "fst (supabase_join flt now u f db) \<noteq> Inl Not_found_404"
    by (rule supabase_join_never_not_found)
next
  assume "fanclubs db f \<noteq> None \<and> \<not> isMember_spec db u f \<and> 1 \<notin> flt \<and> 2 \<notin> flt"
  then show "fst (sqlite_join flt now u f db) = Inr ()"
    by (simp add: sqlite_join_new_member)
next
  assume h: "fst (sqlite_join flt now u f db) = Inr () \<and> 1 \<notin> flt'"
  then have "isMember_spec (snd (sqlite_join flt now u f db)) u f"
    by (simp add: sqlite_join_success_isMember)
  with h show "sqlite_join flt' now' u f (snd (sqlite_join flt now u f db)) =
      (Inl Already_member_400, snd (sqlite_join flt now u f db))"
    by (simp add: sqlite_join_already_member)
next
  assume "sqlite_join_lookup flt' u f db = None \<and> fst (sqlite_join_insert flt now u f db) = Inr ()"
  then have "isMember_spec (snd (sqlite_join_insert flt now u f db)) u f"
    by (simp add: sqlite_join_insert_success_isMember)
  then show "sqlite_join_insert flt' now' u f (snd (sqlite_join_insert flt now u f db)) =
      (Inl Server_error_500, snd (sqlite_join_insert flt now u f db))"
    by (rule sqlite_join_insert_duplicate)
qed

text \<open>Witness: the owner of fanclub 1 joins it again; user 2 joins fanclub 1 twice in a
  row; and two joins of user 2 interleave.\<close>

theorem sqlite_join_outcomes_witness:
  "isMember_spec example_db 1 1 \<and>
   sqlite_join {} jan31 1 1 example_db = (Inl Already_member_400, example_db) \<and>
   fanclubs example_db 1 \<noteq> None \<and> \<not> isMember_spec example_db 2 1 \<and>
   fst (sqlite_join {} jan31 2 1 example_db) = Inr () \<and>
   sqlite_join {} jan31 2 1 (snd (sqlite_join {} jan31 2 1 example_db)) =
     (Inl Already_member_400, snd (sqlite_join {} jan31 2 1 example_db)) \<and>
   sqlite_join_lookup {} 2 1 example_db = None \<and>
   fst (sqlite_join_insert {} jan31 2 1 example_db) = Inr () \<and>
   sqlite_join_insert {} jan31 2 1 (snd (sqlite_join_insert {} jan31 2 1 example_db)) =
     (Inl Server_error_500, snd (sqlite_join_insert {} jan31 2 1 example_db))"
proof -
  have h1: "isMember_spec example_db 1 1"
    by (simp add: isMember_spec_def example_defs)
  have h3: "fanclubs example_db 1 \<noteq> None \<and> \<not> isMember_spec example_db 2 1"
    by (simp add: isMember_spec_def example_defs)
  have h4: "sqlite_join_lookup {} 2 1 example_db = None"
    by (simp add: sqlite_membership_defs example_defs)
  have h5: "fst (sqlite_join_insert {} jan31 2 1 example_db) = Inr ()"
    by (simp add: sqlite_membership_defs example_defs)
  have e: "(1::nat) \<notin> {}" "(2::nat) \<notin> {}" by simp_all
  note a = sqlite_join_outcomes [of "{}" example_db 1 1 jan31 "{}" jan31]
  note c = sqlite_join_outcomes [of "{}" example_db 2 1 jan31 "{}" jan31]
  note a1 = a [THEN conjunct1, rule_format]
  note c4 = c [THEN conjunct2, THEN conjunct2, THEN conjunct2, THEN conjunct1, rule_format]
  note c5 = c [THEN conjunct2, THEN conjunct2, THEN conjunct2, THEN conjunct2, THEN conjunct1,
      rule_format]
  note c6 = c [THEN conjunct2, THEN conjunct2, THEN conjunct2, THEN conjunct2, THEN conjunct2,
      rule_format]
  from e(1) h1 have "(1::nat) \<notin> {} \<and> isMember_spec example_db 1 1" by simp
  from a1 [OF this]
  have r1: "sqlite_join {} jan31 1 1 example_db = (Inl Already_member_400, example_db)" .
  from h3 e have "fanclubs example_db 1 \<noteq> None \<and> \<not> isMember_spec example_db 2 1 \<and>
      (1::nat) \<notin> {} \<and> (2::nat) \<notin> {}"
    by simp
  from c4 [OF this] have r3: "fst (sqlite_join {} jan31 2 1 example_db) = Inr ()" .
  with e(1) have "fst (sqlite_join {} jan31 2 1 example_db) = Inr () \<and> (1::nat) \<notin> {}" by simp
  from c5 [OF this]
  have r4: "sqlite_join {} jan31 2 1 (snd (sqlite_join {} jan31 2 1 example_db)) =
     (Inl Already_member_400, snd (sqlite_join {} jan31 2 1 example_db))" .
  from h4 h5 have "sqlite_join_lookup {} 2 1 example_db = None \<and>
      fst (sqlite_join_insert {} jan31 2 1 example_db) = Inr ()"
    by simp
  from c6 [OF this]
  have r6: "sqlite_join_insert {} jan31 2 1 (snd (sqlite_join_insert {} jan31 2 1 example_db)) =
     (Inl Server_error_500, snd (sqlite_join_insert {} jan31 2 1 example_db))" .
  from h1 h3 h4 h5 r1 r3 r4 r6 show ?thesis by simp
qed

text \<open>Counterexample to C4 as stated: fanclub 9 does not exist, and user 2's join to it
  is answered with the success, not with NotFound; and of two interleaved joins of user 2
  to fanclub 1 the second is answered \<^verbatim>\<open>Server_error_500\<close>, not AlreadyMember.\<close>

theorem sqlite_join_no_not_found:
  "fanclubs example_db 9 = None \<and>
   fst (sqlite_join {} jan31 2 9 example_db) = Inr () \<and>
   fst (sqlite_join {} jan31 2 9 example_db) \<noteq> Inl Not_found_404 \<and>
   sqlite_join_lookup {} 2 1 example_db = None \<and>
   fst (sqlite_join_insert {} jan31 2 1 example_db) = Inr () \<and>
   fst (sqlite_join_insert {} jan31 2 1 (snd (sqlite_join_insert {} jan31 2 1 example_db))) =
     Inl Server_error_500 \<and>
   fst (sqlite_join_insert {} jan31 2 1 (snd (sqlite_join_insert {} jan31 2 1 example_db))) \<noteq>
     Inl Already_member_400"
  by (simp add: sqlite_membership_defs example_defs)

section \<open>Leaving a fanclub\<close>

lemma unique_memberships_same_row:
  "unique_memberships db \<Longrightarrow> m \<in> set (memberships db) \<Longrightarrow> m' \<in> set (memberships db) \<Longrightarrow>
   m_user_id m = m_user_id m' \<Longrightarrow> m_fanclub_id m = m_fanclub_id m' \<Longrightarrow> m = m'"
  by (auto simp: unique_memberships_def distinct_map dest: inj_onD)

lemma leaving_rows_iff:
  assumes "unique_memberships db"
  shows "(filter (leaving_row u f) (memberships db) = []) =
         (isOwner_spec db u f \<or> \<not> isMember_spec db u f)"
proof
  assume "filter (leaving_row u f) (memberships db) = []"
  then show "isOwner_spec db u f \<or> \<not> isMember_spec db u f"
    by (auto simp: filter_empty_conv leaving_row_def isOwner_spec_def isMember_spec_def)
next
  assume h: "isOwner_spec db u f \<or> \<not> isMember_spec db u f"
  show "filter (leaving_row u f) (memberships db) = []"
  proof (rule ccontr)
    assume "filter (leaving_row u f) (memberships db) \<noteq> []"
    then obtain m where m: "m \<in> set (memberships db)" "leaving_row u f m"
      by (auto simp: filter_empty_conv)
    then have "isMember_spec db u f" by (auto simp: isMember_spec_def leaving_row_def)
    with h obtain m' where m': "m' \<in> set (memberships db)" "m_user_id m' = u"
      "m_fanclub_id m' = f" "m_is_owner m'"
      by (auto simp: isOwner_spec_def)
    with m unique_memberships_same_row [OF assms, of m m'] show False
      by (auto simp: leaving_row_def)
  qed
qed

lemma delete_membership_not_member:
  "unique_memberships db \<Longrightarrow> \<not> isOwner_spec db u f \<Longrightarrow>
   \<not> isMember_spec (snd (delete_membership u f db)) u f"
  by (auto simp: delete_membership_def isMember_spec_def isOwner_spec_def leaving_row_def)

lemma sqlite_leave_refused:
  "unique_memberships db \<Longrightarrow> isOwner_spec db u f \<or> \<not> isMember_spec db u f \<Longrightarrow> 1 \<notin> flt \<Longrightarrow>
   sqlite_leave flt u f db = (Inl Cannot_leave_400, db)"
  using leaving_rows_iff [of db u f]
  by (simp add: sqlite_leave_def delete_membership_def)

lemma sqlite_leave_member:
  assumes "unique_memberships db" "isMember_spec db u f" "\<not> isOwner_spec db u f" "1 \<notin> flt"
  shows "fst (sqlite_leave flt u f db) = Inr () \<and>
         \<not> isMember_spec (snd (sqlite_leave flt u f db)) u f \<and>
         member_rows f (snd (sqlite_leave flt u f db)) + 1 = member_rows f db \<and>
         stored_count f (snd (sqlite_leave flt u f db)) =
           (if 2 \<in> flt then stored_count f db else map_option (\<lambda>c. c - 1) (stored_count f db))"
proof -
  from assms leaving_rows_iff [of db u f]
  have ne: "filter (leaving_row u f) (memberships db) \<noteq> []" by simp
  note one = delete_membership_one [OF assms(1) ne]
  have res: "sqlite_leave flt u f db =
      (Inr (), sqlite_update_member_count (2 \<in> flt) f (- 1) (snd (delete_membership u f db)))"
    using one assms(4) by (cases "delete_membership u f db") (simp add: sqlite_leave_def)
  have fc: "fanclubs (snd (delete_membership u f db)) = fanclubs db"
    by (simp add: delete_membership_def)
  show ?thesis
    unfolding res using one delete_membership_not_member [OF assms(1,3)] fc
    by (auto simp: member_rows_def isMember_spec_def sqlite_update_member_count_rows
        stored_count_def sqlite_update_member_count_def split: option.splits)
qed

lemma supabase_leave_member:
  assumes "unique_memberships db" "isMember_spec db u f" "\<not> isOwner_spec db u f" "1 \<notin> flt"
  shows "fst (supabase_leave flt u f db) = Inr () \<and>
         \<not> isMember_spec (snd (supabase_leave flt u f db)) u f \<and>
         member_rows f (snd (supabase_leave flt u f db)) + 1 = member_rows f db \<and>
         stored_count f (snd (supabase_leave flt u f db)) =
           (if 2 \<in> flt then stored_count f db
            else map_option (\<lambda>c. max (c - 1) 0) (stored_count f db))"
proof -
  from assms leaving_rows_iff [of db u f]
  have ne: "filter (leaving_row u f) (memberships db) \<noteq> []" by simp
  note one = delete_membership_one [OF assms(1) ne]
  have fc: "fanclubs (snd (delete_membership u f db)) = fanclubs db"
    by (simp add: delete_membership_def)
  have ms: "memberships (decrement_member_count f d) = memberships d" for d
    by (simp add: decrement_member_count_def split: option.splits)
  show ?thesis
    using one delete_membership_not_member [OF assms(1,3)] fc assms(4)
    by (auto simp: supabase_leave_def Let_def member_rows_def isMember_spec_def ms
        stored_count_def decrement_member_count_def split: option.splits)
qed

text \<open>
  C5, as the code has it. The claim: \<^verbatim>\<open>leave(u, f)\<close> fails with Forbidden when the
  membership is the owner's or does not exist, and then nothing changes; when a non-owner
  membership exists, leave deletes it and decrements \<^verbatim>\<open>member_count\<close> by exactly 1,
  atomically with the delete. In both servers the delete and the decrement are two
  statements, and an error of the decrement is only logged. What holds, for memberships
  unique per (user, fanclub) and a delete that does not fail: on SQLite a leave of the
  owner or of a non-member is answered \<^verbatim>\<open>Cannot_leave_400\<close> and changes nothing, and every
  leave answered with a failure changes nothing; on both servers the leave of a non-owner
  member succeeds, deletes exactly the member's row, and then changes the counter in a
  second statement: by \<open>- 1\<close> on SQLite, to \<^verbatim>\<open>GREATEST(member_count - 1, 0)\<close> on
  PostgreSQL, and not at all when that statement fails.
\<close>

theorem leave_outcomes:
  assumes "unique_memberships db"
  shows
    "(1 \<notin> flt \<and> (isOwner_spec db u f \<or> \<not> isMember_spec db u f) \<longrightarrow>
        sqlite_leave flt u f db = (Inl Cannot_leave_400, db)) \<and>
     (\<forall>e. fst (sqlite_leave flt u f db) = Inl e \<longrightarrow> snd (sqlite_leave flt u f db) = db) \<and>
     (1 \<notin> flt \<and> isMember_spec db u f \<and> \<not> isOwner_spec db u f \<longrightarrow>
        fst (sqlite_leave flt u f db) = Inr () \<and>
        \<not> isMember_spec (snd (sqlite_leave flt u f db)) u f \<and>
        member_rows f (snd (sqlite_leave flt u f db)) + 1 = member_rows f db \<and>
        stored_count f (snd (sqlite_leave flt u f db)) =
          (if 2 \<in> flt then stored_count f db else map_option (\<lambda>c. c - 1) (stored_count f db)) \<and>
        fst (supabase_leave flt u f db) = Inr () \<and>
        \<not> isMember_spec (snd (supabase_leave flt u f db)) u f \<and>
        member_rows f (snd (supabase_leave flt u f db)) + 1 = member_rows f db \<and>
        stored_count f (snd (supabase_leave flt u f db)) =
          (if 2 \<in> flt then stored_count f db
           else map_option (\<lambda>c. max (c - 1) 0) (stored_count f db)))"
proof (intro conjI impI allI)
  assume "1 \<notin> flt \<and> (isOwner_spec db u f \<or> \<not> isMember_spec db u f)"
  then show "sqlite_leave flt u f db = (Inl Cannot_leave_400, db)"
    using sqlite_leave_refused [OF assms] by blast
next
  fix e
  assume "fst (sqlite_leave flt u f db) = Inl e"
  then show "snd (sqlite_leave flt u f db) = db"
    by (rule sqlite_leave_failed_unchanged)
qed (use sqlite_leave_member [OF assms] supabase_leave_member [OF assms] in blast)+

text \<open>Witness: in fanclub 1 with its owner 1 and the member 2, the owner's leave and the
  leave of user 3, who is no member, are refused; user 2 leaves, and the counter goes from
  2 to 1.\<close>

theorem leave_outcomes_witness:
  "unique_memberships joined_db \<and> stored_count 1 joined_db = Some 2 \<and>
   isOwner_spec joined_db 1 1 \<and>
   sqlite_leave {} 1 1 joined_db = (Inl Cannot_leave_400, joined_db) \<and>
   \<not> isMember_spec joined_db 3 1 \<and>
   sqlite_leave {} 3 1 joined_db = (Inl Cannot_leave_400, joined_db) \<and>
   isMember_spec joined_db 2 1 \<and> \<not> isOwner_spec joined_db 2 1 \<and>
   fst (sqlite_leave {} 2 1 joined_db) = Inr () \<and>
   stored_count 1 (snd (sqlite_leave {} 2 1 joined_db)) = Some 1 \<and>
   fst (supabase_leave {} 2 1 joined_db) = Inr () \<and>
   stored_count 1 (snd (supabase_leave {} 2 1 joined_db)) = Some 1"
proof -
  have u: "unique_memberships joined_db"
    by (simp add: unique_memberships_def joined_db_def sqlite_membership_defs example_defs)
  have c: "stored_count 1 joined_db = Some 2"
    by (simp add: stored_count_def joined_db_def sqlite_membership_defs example_defs)
  have o: "isOwner_spec joined_db 1 1"
    by (simp add: isOwner_spec_def joined_db_def sqlite_membership_defs example_defs)
  have n: "\<not> isMember_spec joined_db 3 1"
    by (simp add: isMember_spec_def joined_db_def sqlite_membership_defs example_defs)
  have m: "isMember_spec joined_db 2 1 \<and> \<not> isOwner_spec joined_db 2 1"
    by (simp add: isMember_spec_def isOwner_spec_def joined_db_def sqlite_membership_defs
        example_defs)
  have e: "(1::nat) \<notin> {} \<and> (2::nat) \<notin> {}" by simp
  from leave_outcomes [OF u, of "{}" 1 1] o e
  have r1: "sqlite_leave {} 1 1 joined_db = (Inl Cannot_leave_400, joined_db)" by blast
  from leave_outcomes [OF u, of "{}" 3 1] n e
  have r2: "sqlite_leave {} 3 1 joined_db = (Inl Cannot_leave_400, joined_db)" by blast
  from leave_outcomes [OF u, of "{}" 2 1] m e c
  have r3: "fst (sqlite_leave {} 2 1 joined_db) = Inr () \<and>
      stored_count 1 (snd (sqlite_leave {} 2 1 joined_db)) = Some 1 \<and>
      fst (supabase_leave {} 2 1 joined_db) = Inr () \<and>
      stored_count 1 (snd (supabase_leave {} 2 1 joined_db)) = Some 1"
    by simp
  from u c o n m r1 r2 r3 show ?thesis by blast
qed

text \<open>Counterexample to C5 as stated: the member 2 leaves fanclub 1 on SQLite and the
  \<^verbatim>\<open>UPDATE\<close> of the counter (statement 2) fails. The answer is the success, the row is
  deleted, and \<^verbatim>\<open>member_count\<close> is still 2: a delete without its decrement.\<close>

theorem sqlite_leave_delete_without_decrement:
  "isMember_spec joined_db 2 1 \<and> \<not> isOwner_spec joined_db 2 1 \<and>
   member_rows 1 joined_db = 2 \<and> stored_count 1 joined_db = Some 2 \<and>
   fst (sqlite_leave {2} 2 1 joined_db) = Inr () \<and>
   member_rows 1 (snd (sqlite_leave {2} 2 1 joined_db)) = 1 \<and>
   stored_count 1 (snd (sqlite_leave {2} 2 1 joined_db)) = Some 2"
  by (simp add: isMember_spec_def isOwner_spec_def member_rows_def stored_count_def joined_db_def
      sqlite_membership_defs example_defs)

text \<open>
  The production handler does not read how many rows its delete removed: the owner's
  leave of fanclub 1 is answered with the success and takes the counter from 1 to 0
  while the owner's row stays, where the SQLite handler answers \<^verbatim>\<open>Cannot_leave_400\<close>.
\<close>

lemma supabase_leave_owner_decrements:
  "isOwner_spec example_db 1 1 \<and> stored_count 1 example_db = Some 1 \<and>
   fst (supabase_leave {} 1 1 example_db) = Inr () \<and>
   memberships (snd (supabase_leave {} 1 1 example_db)) = memberships example_db \<and>
   stored_count 1 (snd (supabase_leave {} 1 1 example_db)) = Some 0 \<and>
   sqlite_leave {} 1 1 example_db = (Inl Cannot_leave_400, example_db)"
  by (simp add: isOwner_spec_def stored_count_def supabase_leave_def decrement_member_count_def
      sqlite_membership_defs example_defs)

section \<open>The floor of the member counter\<close>

lemma sqlite_leave_unclamped:
  "unique_memberships db \<Longrightarrow> isMember_spec db u f \<Longrightarrow> \<not> isOwner_spec db u f \<Longrightarrow>
   stored_count f db = Some c \<Longrightarrow>
   stored_count f (snd (sqlite_leave {} u f db)) = Some (c - 1)"
  using sqlite_leave_member [of db u f "{}"] by simp

lemma decrement_member_count_floor:
  "stored_count f (decrement_member_count f db) = Some c \<Longrightarrow> 0 \<le> c"
  by (auto simp: stored_count_def decrement_member_count_def split: option.splits)

text \<open>
  C9 on the code. The claim: the decrement that leave performs is clamped at a floor of
  0, so that no leave makes \<^verbatim>\<open>member_count\<close> negative. The PostgreSQL function
  \<^verbatim>\<open>decrement_member_count\<close> clamps with \<^verbatim>\<open>GREATEST\<close>; the SQLite handler subtracts 1
  and does not clamp. A run of the SQLite handlers that ends with \<^verbatim>\<open>member_count = -1\<close>:
  users 2 and 3 join fanclub 1 while both \<^verbatim>\<open>UPDATE\<close>s of the counter fail, and then leave.
  The lemma after it is a second run, with no failing statement at all: users 2 and 3 join
  the identifier 1 before the fanclub exists, user 1 creates it (it gets the identifier 1
  and the default counter 1), and the two leave.
\<close>

theorem sqlite_leave_negative_count:
  "stored_count 1
     (sqlite_run 1 [Join {3} jan31 2, Join {3} jan31 3, Leave {} 2, Leave {} 3] example_db) =
     Some (- 1)"
  by (simp add: stored_count_def sqlite_membership_defs example_defs)

lemma sqlite_leave_negative_count_before_create:
  "stored_count 1
     (sqlite_run 1 [Leave {} 2, Leave {} 3]
        (snd (sqlite_create_fanclub {} 1 club_body
           (sqlite_run 1 [Join {} jan31 2, Join {} jan31 3] empty_db)))) = Some (- 1)"
  by (simp add: stored_count_def sqlite_create_fanclub_def sqlite_insert_fanclub_def
      new_fanclub_def truthy_def fee_or_zero_def club_body_def empty_db_def
      sqlite_membership_defs)

section \<open>The next payment date\<close>

lemma days_in_month_bounds: "28 \<le> days_in_month y m \<and> days_in_month y m \<le> 31"
  by (simp add: days_in_month_def)

lemma MakeDay_from_within_31:
  assumes "d \<le> 31"
  shows "MakeDay_from ym d =
     (if d \<le> days_in_month (fst ym) (snd ym) then (fst ym, snd ym, d)
      else (fst (next_month ym), snd (next_month ym), d - days_in_month (fst ym) (snd ym)))"
proof (cases "d \<le> days_in_month (fst ym) (snd ym)")
  case True
  then show ?thesis by (subst MakeDay_from.simps) simp
next
  case False
  let ?r = "d - days_in_month (fst ym) (snd ym)"
  from assms days_in_month_bounds [of "fst ym" "snd ym"] have "?r \<le> 3" by linarith
  with days_in_month_bounds [of "fst (next_month ym)" "snd (next_month ym)"]
  have small: "\<not> days_in_month (fst (next_month ym)) (snd (next_month ym)) < ?r" by linarith
  have "MakeDay_from ym d = MakeDay_from (next_month ym) ?r"
    using False by (subst MakeDay_from.simps) simp
  also have "\<dots> = (fst (next_month ym), snd (next_month ym), ?r)"
    using small by (subst MakeDay_from.simps) simp
  finally show ?thesis using False by simp
qed

lemma month_carry:
  "m < 12 \<Longrightarrow> (y + int (Suc m div 12), Suc m mod 12) = next_month (y, m)"
  by (cases "m = 11") (simp_all add: next_month_def)

lemma nextPaymentDate_valid:
  assumes "valid_date now"
  shows "nextPaymentDate now =
     (let ym = next_month (d_year now, d_month now);
          n = days_in_month (fst ym) (snd ym)
      in if d_date now \<le> n then now\<lparr>d_year := fst ym, d_month := snd ym\<rparr>
         else now\<lparr>d_year := fst (next_month ym), d_month := snd (next_month ym),
                  d_date := d_date now - n\<rparr>)"
proof -
  from assms have m: "d_month now < 12" and d: "d_date now \<le> 31"
    using days_in_month_bounds [of "d_year now" "d_month now"] by (auto simp: valid_date_def)
  show ?thesis
    using month_carry [OF m, of "d_year now"] MakeDay_from_within_31 [OF d]
    by (simp add: nextPaymentDate_def setMonth_def getMonth_def Let_def)
qed

lemma sqlite_join_row:
  "fst (sqlite_join flt now u f db) = Inr () \<Longrightarrow>
   memberships (snd (sqlite_join flt now u f db)) =
     memberships db @ [\<lparr>m_user_id = u, m_fanclub_id = f, m_is_owner = False,
                        m_next_payment_date = Some (nextPaymentDate now)\<rparr>]"
  by (auto simp: sqlite_join_def sqlite_join_insert_def sqlite_insert_membership_def
      sqlite_update_member_count_rows split: option.splits if_splits)

lemma increment_member_count_rows:
  "memberships (increment_member_count f db) = memberships db"
  by (simp add: increment_member_count_def split: option.splits)

lemma supabase_join_row:
  "fst (supabase_join flt now u f db) = Inr () \<Longrightarrow>
   memberships (snd (supabase_join flt now u f db)) =
     memberships db @ [\<lparr>m_user_id = u, m_fanclub_id = f, m_is_owner = False,
                        m_next_payment_date = Some (nextPaymentDate now)\<rparr>]"
  by (auto simp: supabase_join_def Let_def pg_insert_membership_def increment_member_count_rows
      split: option.splits if_splits)

text \<open>
  C8, as the code has it. The claim: the new membership's \<^verbatim>\<open>next_payment_date\<close> is the
  join time plus one calendar month, a day that the target month does not have being
  clamped to the last day of that month (Jan 31 gives the last day of February). The
  handlers call \<^verbatim>\<open>setMonth(getMonth() + 1)\<close>, which does not clamp. What holds: every
  successful join appends one membership row whose \<^verbatim>\<open>next_payment_date\<close> is
  \<^verbatim>\<open>nextPaymentDate now\<close>; for a join time that is a date of the calendar, this is the same
  day of the next month when that month has the day, and otherwise the day carried over
  into the month after the next, by as many days as it exceeds the next month's length
  (Jan 31 gives Mar 3, or Mar 2 in a leap year). It is not a fixed 30-day offset.
\<close>

theorem join_next_payment_date:
  "(fst (sqlite_join flt now u f db) = Inr () \<longrightarrow>
      memberships (snd (sqlite_join flt now u f db)) =
        memberships db @ [\<lparr>m_user_id = u, m_fanclub_id = f, m_is_owner = False,
                           m_next_payment_date = Some (nextPaymentDate now)\<rparr>]) \<and>
   (fst (supabase_join flt now u f db) = Inr () \<longrightarrow>
      memberships (snd (supabase_join flt now u f db)) =
        memberships db @ [\<lparr>m_user_id = u, m_fanclub_id = f, m_is_owner = False,
                           m_next_payment_date = Some (nextPaymentDate now)\<rparr>]) \<and>
   (valid_date now \<longrightarrow>
      nextPaymentDate now =
        (let ym = next_month (d_year now, d_month now);
             n = days_in_month (fst ym) (snd ym)
         in if d_date now \<le> n then now\<lparr>d_year := fst ym, d_month := snd ym\<rparr>
            else now\<lparr>d_year := fst (next_month ym), d_month := snd (next_month ym),
                     d_date := d_date now - n\<rparr>))"
  using sqlite_join_row supabase_join_row nextPaymentDate_valid by blast

text \<open>Witness: user 2 joins fanclub 1 on 15 December 2025 and is due on 15 January 2026;
  a join on 31 January 2024, a leap year, is due on 2 March 2024.\<close>

theorem join_next_payment_date_witness:
  "valid_date dec15 \<and> fst (sqlite_join {} dec15 2 1 example_db) = Inr () \<and>
   memberships (snd (sqlite_join {} dec15 2 1 example_db)) =
     [owner_row,
      \<lparr>m_user_id = 2, m_fanclub_id = 1, m_is_owner = False,
       m_next_payment_date = Some \<lparr>d_year = 2026, d_month = 0, d_date = 15, d_time = 0\<rparr>\<rparr>] \<and>
   fst (supabase_join {} dec15 2 1 example_db) = Inr () \<and>
   memberships (snd (supabase_join {} dec15 2 1 example_db)) =
     [owner_row,
      \<lparr>m_user_id = 2, m_fanclub_id = 1, m_is_owner = False,
       m_next_payment_date = Some \<lparr>d_year = 2026, d_month = 0, d_date = 15, d_time = 0\<rparr>\<rparr>] \<and>
   valid_date (jan31\<lparr>d_year := 2024\<rparr>) \<and>
   nextPaymentDate (jan31\<lparr>d_year := 2024\<rparr>) =
     \<lparr>d_year = 2024, d_month = 2, d_date = 2, d_time = 0\<rparr>"
proof -
  have v: "valid_date dec15"
    by (simp add: valid_date_def dec15_def days_in_month_def)
  have v': "valid_date (jan31\<lparr>d_year := 2024\<rparr>)"
    by (simp add: valid_date_def jan31_def days_in_month_def)
  have s: "fst (sqlite_join {} dec15 2 1 example_db) = Inr ()"
    by (simp add: sqlite_membership_defs example_defs)
  have p: "fst (supabase_join {} dec15 2 1 example_db) = Inr ()"
    by (simp add: supabase_join_def supabase_single_def pg_insert_membership_def
        select_membership_def example_defs)
  note a = join_next_payment_date [of "{}" dec15 2 1 example_db]
  note b = join_next_payment_date [of "{}" "jan31\<lparr>d_year := 2024\<rparr>" 2 1 example_db]
  from a v have n: "nextPaymentDate dec15 = \<lparr>d_year = 2026, d_month = 0, d_date = 15, d_time = 0\<rparr>"
    by (simp add: dec15_def next_month_def days_in_month_def)
  from b v' have n': "nextPaymentDate (jan31\<lparr>d_year := 2024\<rparr>) =
      \<lparr>d_year = 2024, d_month = 2, d_date = 2, d_time = 0\<rparr>"
    by (simp add: jan31_def next_month_def days_in_month_def leap_year_def)
  from a s p n have r: "memberships (snd (sqlite_join {} dec15 2 1 example_db)) =
     [owner_row,
      \<lparr>m_user_id = 2, m_fanclub_id = 1, m_is_owner = False,
       m_next_payment_date = Some \<lparr>d_year = 2026, d_month = 0, d_date = 15, d_time = 0\<rparr>\<rparr>] \<and>
     memberships (snd (supabase_join {} dec15 2 1 example_db)) =
     [owner_row,
      \<lparr>m_user_id = 2, m_fanclub_id = 1, m_is_owner = False,
       m_next_payment_date = Some \<lparr>d_year = 2026, d_month = 0, d_date = 15, d_time = 0\<rparr>\<rparr>]"
    by (simp add: example_db_def)
  from v v' s p n' r show ?thesis by blast
qed

text \<open>Counterexample to C8 as stated: user 2 joins fanclub 1 on 31 January 2025. The
  stored \<^verbatim>\<open>next_payment_date\<close> is 3 March 2025, where the clamp of the specification gives
  28 February 2025.\<close>

theorem join_on_jan31_overflows:
  "fst (sqlite_join {} jan31 2 1 example_db) = Inr () \<and>
   map m_next_payment_date (memberships (snd (sqlite_join {} jan31 2 1 example_db))) =
     [None, Some \<lparr>d_year = 2025, d_month = 2, d_date = 3, d_time = 0\<rparr>] \<and>
   map m_next_payment_date (memberships (snd (supabase_join {} jan31 2 1 example_db))) =
     [None, Some \<lparr>d_year = 2025, d_month = 2, d_date = 3, d_time = 0\<rparr>] \<and>
   add_month_clamped_spec jan31 = \<lparr>d_year = 2025, d_month = 1, d_date = 28, d_time = 0\<rparr> \<and>
   nextPaymentDate jan31 \<noteq> add_month_clamped_spec jan31"
  by (simp add: sqlite_membership_defs supabase_join_def supabase_single_def
      pg_insert_membership_def increment_member_count_def example_defs
      nextPaymentDate_def setMonth_def getMonth_def MakeDay_from.simps next_month_def
      days_in_month_def leap_year_def add_month_clamped_spec_def jan31_def)

section \<open>Creating a fanclub and its owner's membership\<close>

lemma new_fanclub_owner_count:
  "f_owner_id (new_fanclub uid body) = uid \<and> f_member_count (new_fanclub uid body) = 1"
  by (simp add: new_fanclub_def)

lemma sqlite_create_fanclub_invalid:
  "\<not> truthy (b_name body) \<or> \<not> truthy (b_purpose body) \<Longrightarrow>
   sqlite_create_fanclub flt uid body db = (Inl Missing_fields_400, db)"
  by (auto simp: sqlite_create_fanclub_def)

lemma supabase_create_fanclub_invalid:
  "\<not> truthy (b_name body) \<or> \<not> truthy (b_purpose body) \<Longrightarrow>
   supabase_create_fanclub flt uid body db = (Inl Missing_fields_400, db)"
  by (auto simp: supabase_create_fanclub_def)

lemma sqlite_create_fanclub_failed_unchanged:
  "fst (sqlite_create_fanclub flt uid body db) = Inl e \<Longrightarrow>
   snd (sqlite_create_fanclub flt uid body db) = db"
  by (auto simp: sqlite_create_fanclub_def split: if_splits option.splits prod.splits)

lemma supabase_create_fanclub_failed_unchanged:
  "fst (supabase_create_fanclub flt uid body db) = Inl e \<Longrightarrow>
   snd (supabase_create_fanclub flt uid body db) = db"
  by (auto simp: supabase_create_fanclub_def split: if_splits option.splits prod.splits)

lemma sqlite_create_fanclub_row:
  assumes "fst (sqlite_create_fanclub flt uid body db) = Inr fid"
  shows "fid = Suc (fanclub_seq db) \<and>
         fanclubs (snd (sqlite_create_fanclub flt uid body db)) fid = Some (new_fanclub uid body)"
  using assms
  by (auto simp: sqlite_create_fanclub_def sqlite_insert_fanclub_def Let_def
      sqlite_insert_membership_def split: if_splits option.splits)

lemma supabase_create_fanclub_row:
  assumes "fst (supabase_create_fanclub flt uid body db) = Inr fid"
  shows "fid = Suc (fanclub_seq db) \<and>
         fanclubs (snd (supabase_create_fanclub flt uid body db)) fid = Some (new_fanclub uid body)"
  using assms
  by (auto simp: supabase_create_fanclub_def pg_insert_fanclub_def Let_def
      pg_insert_membership_def split: if_splits option.splits)

lemma sqlite_create_fanclub_owner_row:
  assumes "fst (sqlite_create_fanclub flt uid body db) = Inr fid"
  shows "memberships (snd (sqlite_create_fanclub flt uid body db)) =
     (if 2 \<in> flt \<or> isMember_spec db uid fid then memberships db
      else memberships db @ [\<lparr>m_user_id = uid, m_fanclub_id = fid, m_is_owner = True,
                               m_next_payment_date = None\<rparr>])"
  using assms
  by (auto simp: sqlite_create_fanclub_def sqlite_insert_fanclub_def Let_def
      sqlite_insert_membership_def select_membership_def isMember_spec_def find_None_iff_all
      split: if_splits option.splits)

lemma supabase_create_fanclub_owner_row:
  assumes "fst (supabase_create_fanclub flt uid body db) = Inr fid"
  shows "memberships (snd (supabase_create_fanclub flt uid body db)) =
     (if 2 \<in> flt \<or> isMember_spec db uid fid then memberships db
      else memberships db @ [\<lparr>m_user_id = uid, m_fanclub_id = fid, m_is_owner = True,
                               m_next_payment_date = None\<rparr>])"
  using assms
  by (auto simp: supabase_create_fanclub_def pg_insert_fanclub_def Let_def
      pg_insert_membership_def select_membership_def isMember_spec_def find_None_iff_all
      new_fanclub_owner_count split: if_splits option.splits)


text \<open>
  C7, as the code has it. The claim: \<^verbatim>\<open>create\<close> fails with ValidationError when name or
  purpose is absent, changing nothing; on success it creates the fanclub row and the
  owner's membership as one atomic unit with \<^verbatim>\<open>member_count = 1\<close>, and never leaves a
  fanclub without its owner's membership. In both servers the two rows are inserted by
  two statements and the result of the second is not acted on. What holds, on both
  servers: a request without a name or a purpose (absent or empty) is answered
  \<^verbatim>\<open>Missing_fields_400\<close>, and every request answered with a failure changes nothing; a
  request answered with the success has stored the fanclub row under the next identifier
  with \<^verbatim>\<open>member_count = 1\<close> and the caller as its owner, and has then appended the owner's
  membership (\<^verbatim>\<open>is_owner\<close> true, no payment date) unless that second insert failed, by a
  fault or because a membership of the caller for that identifier was already stored;
  then the memberships are as before, and the answer is the success all the same.
\<close>

theorem create_fanclub_outcomes:
  "(\<not> truthy (b_name body) \<or> \<not> truthy (b_purpose body) \<longrightarrow>
      sqlite_create_fanclub flt uid body db = (Inl Missing_fields_400, db) \<and>
      supabase_create_fanclub flt uid body db = (Inl Missing_fields_400, db)) \<and>
   (\<forall>e. fst (sqlite_create_fanclub flt uid body db) = Inl e \<longrightarrow>
      snd (sqlite_create_fanclub flt uid body db) = db) \<and>
   (\<forall>e. fst (supabase_create_fanclub flt uid body db) = Inl e \<longrightarrow>
      snd (supabase_create_fanclub flt uid body db) = db) \<and>
   (\<forall>fid. fst (sqlite_create_fanclub flt uid body db) = Inr fid \<longrightarrow>
      fid = Suc (fanclub_seq db) \<and>
      fanclubs (snd (sqlite_create_fanclub flt uid body db)) fid = Some (new_fanclub uid body) \<and>
      f_owner_id (new_fanclub uid body) = uid \<and> f_member_count (new_fanclub uid body) = 1 \<and>
      memberships (snd (sqlite_create_fanclub flt uid body db)) =
        (if 2 \<in> flt \<or> isMember_spec db uid fid then memberships db
         else memberships db @ [\<lparr>m_user_id = uid, m_fanclub_id = fid, m_is_owner = True,
                                  m_next_payment_date = None\<rparr>])) \<and>
   (\<forall>fid. fst (supabase_create_fanclub flt uid body db) = Inr fid \<longrightarrow>
      fid = Suc (fanclub_seq db) \<and>
      fanclubs (snd (supabase_create_fanclub flt uid body db)) fid = Some (new_fanclub uid body) \<and>
      f_owner_id (new_fanclub uid body) = uid \<and> f_member_count (new_fanclub uid body) = 1 \<and>
      memberships (snd (supabase_create_fanclub flt uid body db)) =
        (if 2 \<in> flt \<or> isMember_spec db uid fid then memberships db
         else memberships db @ [\<lparr>m_user_id = uid, m_fanclub_id = fid, m_is_owner = True,
                                  m_next_payment_date = None\<rparr>]))"
proof (intro conjI allI impI)
  fix fid
  assume s: "fst (sqlite_create_fanclub flt uid body db) = Inr fid"
  from sqlite_create_fanclub_row [OF s]
  show "fid = Suc (fanclub_seq db)"
    and "fanclubs (snd (sqlite_create_fanclub flt uid body db)) fid = Some (new_fanclub uid body)"
    by blast+
  from sqlite_create_fanclub_owner_row [OF s]
  show "memberships (snd (sqlite_create_fanclub flt uid body db)) =
        (if 2 \<in> flt \<or> isMember_spec db uid fid then memberships db
         else memberships db @ [\<lparr>m_user_id = uid, m_fanclub_id = fid, m_is_owner = True,
                                  m_next_payment_date = None\<rparr>])" .
next
  fix fid
  assume s: "fst (supabase_create_fanclub flt uid body db) = Inr fid"
  from supabase_create_fanclub_row [OF s]
  show "fid = Suc (fanclub_seq db)"
    and "fanclubs (snd (supabase_create_fanclub flt uid body db)) fid = Some (new_fanclub uid body)"
    by blast+
  from supabase_create_fanclub_owner_row [OF s]
  show "memberships (snd (supabase_create_fanclub flt uid body db)) =
        (if 2 \<in> flt \<or> isMember_spec db uid fid then memberships db
         else memberships db @ [\<lparr>m_user_id = uid, m_fanclub_id = fid, m_is_owner = True,
                                  m_next_payment_date = None\<rparr>])" .
qed (simp_all add: sqlite_create_fanclub_invalid supabase_create_fanclub_invalid
      sqlite_create_fanclub_failed_unchanged supabase_create_fanclub_failed_unchanged
      new_fanclub_owner_count)

text \<open>Witness: user 1 creates the first fanclub, which leaves fanclub 1 with its owner's
  membership; a request without a name is refused.\<close>

theorem create_fanclub_outcomes_witness:
  "\<not> truthy (b_name (club_body\<lparr>b_name := None\<rparr>)) \<and>
   sqlite_create_fanclub {} 1 (club_body\<lparr>b_name := None\<rparr>) empty_db =
     (Inl Missing_fields_400, empty_db) \<and>
   supabase_create_fanclub {} 1 (club_body\<lparr>b_name := None\<rparr>) empty_db =
     (Inl Missing_fields_400, empty_db) \<and>
   fst (sqlite_create_fanclub {} 1 club_body empty_db) = Inr 1 \<and>
   fanclubs (snd (sqlite_create_fanclub {} 1 club_body empty_db)) 1 = Some club1 \<and>
   memberships (snd (sqlite_create_fanclub {} 1 club_body empty_db)) = [owner_row] \<and>
   fst (supabase_create_fanclub {} 1 club_body empty_db) = Inr 1 \<and>
   fanclubs (snd (supabase_create_fanclub {} 1 club_body empty_db)) 1 = Some club1 \<and>
   memberships (snd (supabase_create_fanclub {} 1 club_body empty_db)) = [owner_row]"
proof -
  have h: "\<not> truthy (b_name (club_body\<lparr>b_name := None\<rparr>))"
    by (simp add: truthy_def)
  have s: "fst (sqlite_create_fanclub {} 1 club_body empty_db) = Inr 1"
    by (simp add: sqlite_create_fanclub_def sqlite_insert_fanclub_def truthy_def club_body_def
        empty_db_def)
  have p: "fst (supabase_create_fanclub {} 1 club_body empty_db) = Inr 1"
    by (simp add: supabase_create_fanclub_def pg_insert_fanclub_def truthy_def club_body_def
        new_fanclub_def empty_db_def)
  have n: "new_fanclub 1 club_body = club1 \<and> \<not> isMember_spec empty_db 1 1 \<and>
      memberships empty_db = []"
    by (simp add: new_fanclub_def club_body_def club1_def fee_or_zero_def isMember_spec_def
        empty_db_def)
  note a = create_fanclub_outcomes [of "club_body\<lparr>b_name := None\<rparr>" "{}" 1 empty_db]
  note b = create_fanclub_outcomes [of club_body "{}" 1 empty_db]
  from a h have r1: "sqlite_create_fanclub {} 1 (club_body\<lparr>b_name := None\<rparr>) empty_db =
     (Inl Missing_fields_400, empty_db) \<and>
     supabase_create_fanclub {} 1 (club_body\<lparr>b_name := None\<rparr>) empty_db =
     (Inl Missing_fields_400, empty_db)"
    by blast
  from b s n have r2: "fanclubs (snd (sqlite_create_fanclub {} 1 club_body empty_db)) 1 = Some club1 \<and>
     memberships (snd (sqlite_create_fanclub {} 1 club_body empty_db)) = [owner_row]"
    by (simp add: owner_row_def)
  from b p n have r3: "fanclubs (snd (supabase_create_fanclub {} 1 club_body empty_db)) 1 = Some club1 \<and>
     memberships (snd (supabase_create_fanclub {} 1 club_body empty_db)) = [owner_row]"
    by (simp add: owner_row_def)
  from h s p r1 r2 r3 show ?thesis by blast
qed

text \<open>Counterexample to C7 as stated: user 1 creates the first fanclub and the insert
  of the owner's membership (statement 2) fails. Both servers answer with the success,
  and fanclub 1 is stored with \<^verbatim>\<open>member_count = 1\<close> and no membership at all. On SQLite
  the same happens with no fault when user 1 has joined the identifier 1 before the
  fanclub existed: the owner's insert is refused by \<^verbatim>\<open>UNIQUE(user_id, fanclub_id)\<close>.\<close>

theorem create_fanclub_without_owner_membership:
  "fst (sqlite_create_fanclub {2} 1 club_body empty_db) = Inr 1 \<and>
   stored_count 1 (snd (sqlite_create_fanclub {2} 1 club_body empty_db)) = Some 1 \<and>
   memberships (snd (sqlite_create_fanclub {2} 1 club_body empty_db)) = [] \<and>
   fst (supabase_create_fanclub {2} 1 club_body empty_db) = Inr 1 \<and>
   stored_count 1 (snd (supabase_create_fanclub {2} 1 club_body empty_db)) = Some 1 \<and>
   memberships (snd (supabase_create_fanclub {2} 1 club_body empty_db)) = [] \<and>
   fst (sqlite_create_fanclub {} 1 club_body (snd (sqlite_join {} jan31 1 1 empty_db))) = Inr 1 \<and>
   \<not> isOwner_spec
       (snd (sqlite_create_fanclub {} 1 club_body (snd (sqlite_join {} jan31 1 1 empty_db)))) 1 1"
  by (simp add: stored_count_def isOwner_spec_def sqlite_create_fanclub_def
      sqlite_insert_fanclub_def supabase_create_fanclub_def pg_insert_fanclub_def
      pg_insert_membership_def new_fanclub_def truthy_def fee_or_zero_def club_body_def
      empty_db_def sqlite_membership_defs)

section \<open>Listing the visible posts\<close>

lemma order_by_published_at_desc_mset:
  "mset (order_by_published_at_desc ps) = mset ps"
  by (simp add: order_by_published_at_desc_def)

lemma order_by_published_at_desc_sorted:
  "published_desc (order_by_published_at_desc ps)"
proof -
  have "sorted (map p_published_at (sort_key p_published_at ps))"
    by (rule sorted_sort_key)
  then have "sorted_wrt (\<lambda>p q. p_published_at p \<le> p_published_at q) (sort_key p_published_at ps)"
    by (simp add: sorted_wrt_map)
  then show ?thesis
    by (simp add: published_desc_def order_by_published_at_desc_def sorted_wrt_rev)
qed

lemma sqlite_posts_where_canView:
  "p_author_id p \<in> users db \<Longrightarrow>
   sqlite_posts_where viewer f db p = (p_fanclub_id p = f \<and> canView_spec db viewer p)"
  by (cases "p_visibility p"; cases viewer)
    (auto simp: sqlite_posts_where_def canView_spec_def isMember_spec_def)

lemma sqlite_filter_visible:
  assumes "posts_have_authors db"
  shows "filter (sqlite_posts_where viewer f db) (posts db) = visible_posts_spec db viewer f"
  unfolding visible_posts_spec_def
proof (rule filter_cong)
  fix p
  assume "p \<in> set (posts db)"
  with assms have "p_author_id p \<in> users db"
    by (simp add: posts_have_authors_def list_all_iff)
  then show "sqlite_posts_where viewer f db p = (p_fanclub_id p = f \<and> canView_spec db viewer p)"
    by (rule sqlite_posts_where_canView)
qed simp

lemma supabase_single_isMember:
  assumes "unique_memberships db"
  shows "(supabase_single (\<lambda>m. m_user_id m = u \<and> m_fanclub_id m = f) (memberships db) = None) =
         (\<not> isMember_spec db u f)"
proof -
  let ?rows = "filter (\<lambda>m. m_user_id m = u \<and> m_fanclub_id m = f) (memberships db)"
  have "length (filter (\<lambda>m. (m_user_id m, m_fanclub_id m) = (u, f) \<and> True) (memberships db)) \<le> 1"
    using assms by (intro distinct_key_filter_le1) (simp add: unique_memberships_def)
  then have le1: "length ?rows \<le> 1" by simp
  have mem: "isMember_spec db u f = (?rows \<noteq> [])"
    by (auto simp: isMember_spec_def filter_empty_conv)
  show ?thesis
  proof (cases ?rows)
    case Nil
    with mem show ?thesis by (simp add: supabase_single_def)
  next
    case (Cons r rs)
    with le1 have "rs = []" by simp
    with Cons mem show ?thesis by (simp add: supabase_single_def)
  qed
qed

lemma supabase_visible_canView:
  assumes "unique_memberships db" "1 \<notin> flt" "p_fanclub_id p = f"
  shows "(p_visibility p \<in> set (supabase_visible flt viewer f db)) = canView_spec db viewer p"
  using assms(2,3)
  by (cases "p_visibility p"; cases viewer)
    (simp_all del: not_None_eq add: supabase_visible_def canView_spec_def Let_def
      supabase_single_isMember [OF assms(1)])

lemma supabase_filter_visible:
  assumes "unique_memberships db" "1 \<notin> flt"
  shows "filter (\<lambda>p. p_fanclub_id p = f \<and> p_visibility p \<in> set (supabase_visible flt viewer f db))
           (posts db) = visible_posts_spec db viewer f"
  unfolding visible_posts_spec_def
  by (rule filter_cong) (auto simp: supabase_visible_canView [OF assms])

lemma sqlite_list_posts_visible:
  assumes "posts_have_authors db" "1 \<notin> flt"
  shows "sqlite_list_posts flt req f db =
         Inr (order_by_published_at_desc (visible_posts_spec db (query_user_id req) f))"
  using assms by (simp add: sqlite_list_posts_def Let_def sqlite_filter_visible)

lemma supabase_list_posts_visible:
  assumes "posts_have_authors db" "unique_memberships db" "1 \<notin> flt" "2 \<notin> flt"
  shows "supabase_list_posts flt req f db =
         Inr (order_by_published_at_desc (visible_posts_spec db (query_user_id req) f))"
proof -
  let ?data = "order_by_published_at_desc (visible_posts_spec db (query_user_id req) f)"
  have "set ?data \<subseteq> set (posts db)"
    by (auto simp: order_by_published_at_desc_def visible_posts_spec_def)
  with assms(1) have "\<not> list_ex (\<lambda>p. p_author_id p \<notin> users db) ?data"
    by (auto simp: posts_have_authors_def list_all_iff list_ex_iff)
  then show ?thesis
    using assms(4) by (simp add: supabase_list_posts_def Let_def supabase_filter_visible [OF assms(2,3)])
qed

text \<open>
  C1. For every fanclub and every viewer, the listing returns exactly the posts that the
  visibility gate allows (every public post; a members' post iff the viewer is an
  identity with a membership in the fanclub; the anonymous viewer gets the public posts
  only), ordered by \<^verbatim>\<open>published_at\<close> descending. The viewer of the handlers is the
  \<^verbatim>\<open>user_id\<close> of the query string. Both servers, when the stored posts have their
  authors' rows, the memberships are unique per (user, fanclub) and no statement of the
  request fails, answer with a list that has exactly the posts of
  \<^verbatim>\<open>visible_posts_spec\<close>, each as often as it is stored, in descending order of
  \<^verbatim>\<open>published_at\<close>.
\<close>

theorem list_posts_visible_sorted:
  assumes "posts_have_authors db" and "unique_memberships db"
  shows
    "(\<exists>ps. sqlite_list_posts {} req f db = Inr ps \<and>
           mset ps = mset (visible_posts_spec db (query_user_id req) f) \<and> published_desc ps) \<and>
     (\<exists>ps. supabase_list_posts {} req f db = Inr ps \<and>
           mset ps = mset (visible_posts_spec db (query_user_id req) f) \<and> published_desc ps)"
  using sqlite_list_posts_visible [OF assms(1), of "{}" req f]
    supabase_list_posts_visible [OF assms, of "{}" req f]
  by (simp add: order_by_published_at_desc_mset order_by_published_at_desc_sorted)

text \<open>Witness: fanclub 1 has a public post and a later members' post. The member 2 is
  listed both, the later one first; the anonymous viewer and user 3, who is no member,
  are listed the public post only.\<close>

theorem list_posts_visible_sorted_witness:
  "posts_have_authors posts_db \<and> unique_memberships posts_db \<and>
   visible_posts_spec posts_db (Some 2) 1 = [public_post, members_post] \<and>
   (\<exists>ps. sqlite_list_posts {} forged_request 1 posts_db = Inr ps \<and>
         mset ps = mset [public_post, members_post] \<and> published_desc ps) \<and>
   sqlite_list_posts {} forged_request 1 posts_db = Inr [members_post, public_post] \<and>
   supabase_list_posts {} forged_request 1 posts_db = Inr [members_post, public_post] \<and>
   visible_posts_spec posts_db None 1 = [public_post] \<and>
   sqlite_list_posts {} anonymous_request 1 posts_db = Inr [public_post] \<and>
   supabase_list_posts {} anonymous_request 1 posts_db = Inr [public_post] \<and>
   visible_posts_spec posts_db (Some 3) 1 = [public_post] \<and>
   sqlite_list_posts {} \<lparr>verified_identity = Some 3, query_user_id = Some 3\<rparr> 1 posts_db =
     Inr [public_post]"
proof -
  have a: "posts_have_authors posts_db"
    by (simp add: posts_have_authors_def posts_example_defs sqlite_membership_defs example_defs)
  have u: "unique_memberships posts_db"
    by (simp add: unique_memberships_def posts_example_defs sqlite_membership_defs example_defs)
  have v: "visible_posts_spec posts_db (Some 2) 1 = [public_post, members_post] \<and>
      visible_posts_spec posts_db None 1 = [public_post] \<and>
      visible_posts_spec posts_db (Some 3) 1 = [public_post]"
    by (simp add: visible_posts_spec_def canView_spec_def isMember_spec_def posts_example_defs
        sqlite_membership_defs example_defs)
  have q: "query_user_id forged_request = Some 2 \<and> query_user_id anonymous_request = None"
    by (simp add: forged_request_def anonymous_request_def)
  have o: "order_by_published_at_desc [public_post, members_post] = [members_post, public_post] \<and>
      order_by_published_at_desc [public_post] = [public_post]"
    by (simp add: order_by_published_at_desc_def sort_key_def public_post_def members_post_def)
  from list_posts_visible_sorted [OF a u, of forged_request 1] v q
  have t: "\<exists>ps. sqlite_list_posts {} forged_request 1 posts_db = Inr ps \<and>
         mset ps = mset [public_post, members_post] \<and> published_desc ps"
    by simp
  have e: "(1::nat) \<notin> {}" "(2::nat) \<notin> {}" by simp_all
  have r: "sqlite_list_posts {} forged_request 1 posts_db = Inr [members_post, public_post] \<and>
      supabase_list_posts {} forged_request 1 posts_db = Inr [members_post, public_post] \<and>
      sqlite_list_posts {} anonymous_request 1 posts_db = Inr [public_post] \<and>
      supabase_list_posts {} anonymous_request 1 posts_db = Inr [public_post] \<and>
      sqlite_list_posts {} \<lparr>verified_identity = Some 3, query_user_id = Some 3\<rparr> 1 posts_db =
        Inr [public_post]"
    using v q o
    by (simp add: sqlite_list_posts_visible [OF a e(1)] supabase_list_posts_visible [OF a u e])
  from a u v t r show ?thesis by blast
qed

section \<open>The identity the listing trusts\<close>

text \<open>
  C2, as the code has it. The claim: the decision for members' posts depends only on the
  identity verified by the authentication layer, so that two requests with the same
  verified identity (or both with none) are listed the same posts whatever \<^verbatim>\<open>user_id\<close>
  the client supplies. The route has no \<^verbatim>\<open>authenticateToken\<close> and reads
  \<^verbatim>\<open>req.query.user_id\<close> only. What holds is the converse: two requests for the posts of
  the same fanclub that carry the same \<^verbatim>\<open>user_id\<close> parameter get the same answer
  whatever identity, if any, their tokens verify to.
\<close>

theorem list_posts_depends_on_query_user_id:
  assumes "query_user_id r1 = query_user_id r2"
  shows "sqlite_list_posts flt r1 f db = sqlite_list_posts flt r2 f db \<and>
         supabase_list_posts flt r1 f db = supabase_list_posts flt r2 f db"
  using assms by (simp add: sqlite_list_posts_def supabase_list_posts_def)

text \<open>Witness: the request without a token and the request with the token of user 3,
  both with \<^verbatim>\<open>user_id=2\<close>, are listed the same posts.\<close>

theorem list_posts_depends_on_query_user_id_witness:
  "query_user_id forged_request = query_user_id outsider_request \<and>
   verified_identity forged_request \<noteq> verified_identity outsider_request \<and>
   sqlite_list_posts {} forged_request 1 posts_db =
     sqlite_list_posts {} outsider_request 1 posts_db \<and>
   supabase_list_posts {} forged_request 1 posts_db =
     supabase_list_posts {} outsider_request 1 posts_db"
proof -
  have q: "query_user_id forged_request = query_user_id outsider_request"
    by (simp add: forged_request_def outsider_request_def)
  have v: "verified_identity forged_request \<noteq> verified_identity outsider_request"
    by (simp add: forged_request_def outsider_request_def)
  from list_posts_depends_on_query_user_id [OF q, of "{}" 1 posts_db] q v
  show ?thesis by blast
qed

text \<open>Counterexample to C2 as stated: two requests for the posts of fanclub 1, neither
  with a verified identity. The one without \<^verbatim>\<open>user_id\<close> is listed the public post; the
  one with \<^verbatim>\<open>user_id=2\<close>, the identifier of a member, is listed the members' post as well,
  on both servers. And the member 2 with a verified token and no \<^verbatim>\<open>user_id\<close> is listed
  the public post only.\<close>

theorem list_posts_trusts_query_user_id:
  "verified_identity anonymous_request = verified_identity forged_request \<and>
   p_visibility members_post = Members \<and>
   sqlite_list_posts {} anonymous_request 1 posts_db = Inr [public_post] \<and>
   sqlite_list_posts {} forged_request 1 posts_db = Inr [members_post, public_post] \<and>
   supabase_list_posts {} anonymous_request 1 posts_db = Inr [public_post] \<and>
   supabase_list_posts {} forged_request 1 posts_db = Inr [members_post, public_post] \<and>
   isMember_spec posts_db 2 1 \<and>
   sqlite_list_posts {} member_request 1 posts_db = Inr [public_post]"
  by (simp add: sqlite_list_posts_def sqlite_posts_where_def supabase_list_posts_def
      supabase_visible_def supabase_single_def order_by_published_at_desc_def sort_key_def
      isMember_spec_def posts_example_defs sqlite_membership_defs example_defs)

section \<open>Who may publish\<close>

lemma select_owner_membership_isOwner:
  "(select_owner_membership u f db = None) = (\<not> isOwner_spec db u f)"
  by (auto simp: select_owner_membership_def isOwner_spec_def find_None_iff_all)

lemma supabase_single_Some_ex:
  "supabase_single P rows = Some r \<Longrightarrow> r \<in> set rows \<and> P r"
proof -
  assume s: "supabase_single P rows = Some r"
  then have "filter P rows = [r]"
    by (cases "filter P rows"; cases "tl (filter P rows)") (auto simp: supabase_single_def)
  then have "r \<in> set (filter P rows)" by simp
  then show ?thesis by simp
qed

lemma supabase_single_none_ex:
  "\<forall>r\<in>set rows. \<not> P r \<Longrightarrow> supabase_single P rows = None"
proof -
  assume "\<forall>r\<in>set rows. \<not> P r"
  then have "filter P rows = []" by (simp add: filter_empty_conv)
  then show ?thesis by (simp add: supabase_single_def)
qed

lemma supabase_single_owner:
  assumes "unique_memberships db"
  shows "(supabase_single (\<lambda>m. m_user_id m = u \<and> m_fanclub_id m = f \<and> m_is_owner m)
            (memberships db) = None) = (\<not> isOwner_spec db u f)"
proof -
  let ?P = "\<lambda>m. m_user_id m = u \<and> m_fanclub_id m = f \<and> m_is_owner m"
  let ?rows = "filter ?P (memberships db)"
  have "length (filter (\<lambda>m. (m_user_id m, m_fanclub_id m) = (u, f) \<and> m_is_owner m)
      (memberships db)) \<le> 1"
    using assms by (intro distinct_key_filter_le1) (simp add: unique_memberships_def)
  then have le1: "length ?rows \<le> 1" by simp
  have own: "isOwner_spec db u f = (?rows \<noteq> [])"
    by (auto simp: isOwner_spec_def filter_empty_conv)
  show ?thesis
  proof (cases ?rows)
    case Nil
    with own show ?thesis by (simp add: supabase_single_def)
  next
    case (Cons r rs)
    with le1 have "rs = []" by simp
    with Cons own show ?thesis by (simp add: supabase_single_def)
  qed
qed

lemma sqlite_create_post_success_owner:
  "fst (sqlite_create_post flt now uid body f db) = Inr pid \<Longrightarrow> isOwner_spec db uid f"
  by (auto simp: sqlite_create_post_def select_owner_membership_isOwner
      split: if_splits option.splits)

lemma supabase_create_post_success_owner:
  assumes "fst (supabase_create_post flt now uid body f db) = Inr pid"
  shows "isOwner_spec db uid f"
proof -
  from assms obtain r where
    "supabase_single (\<lambda>m. m_user_id m = uid \<and> m_fanclub_id m = f \<and> m_is_owner m)
       (memberships db) = Some r"
    by (auto simp: supabase_create_post_def Let_def split: if_splits option.splits)
  from supabase_single_Some_ex [OF this] show ?thesis
    by (auto simp: isOwner_spec_def)
qed

lemma sqlite_create_post_not_owner:
  "\<not> isOwner_spec db uid f \<Longrightarrow> truthy (pb_title body) \<Longrightarrow> truthy (pb_content body) \<Longrightarrow>
   1 \<notin> flt \<Longrightarrow> sqlite_create_post flt now uid body f db = (Inl No_permission_403, db)"
  by (simp add: sqlite_create_post_def select_owner_membership_isOwner)

lemma supabase_create_post_not_owner:
  assumes "\<not> isOwner_spec db uid f" "truthy (pb_title body)" "truthy (pb_content body)"
  shows "supabase_create_post flt now uid body f db = (Inl No_permission_403, db)"
proof -
  from assms(1) have "supabase_single (\<lambda>m. m_user_id m = uid \<and> m_fanclub_id m = f \<and> m_is_owner m)
       (memberships db) = None"
    by (intro supabase_single_none_ex) (auto simp: isOwner_spec_def)
  with assms(2,3) show ?thesis by (simp add: supabase_create_post_def)
qed

lemma sqlite_create_post_failed_unchanged:
  "fst (sqlite_create_post flt now uid body f db) = Inl e \<Longrightarrow>
   snd (sqlite_create_post flt now uid body f db) = db"
  by (auto simp: sqlite_create_post_def split: if_splits option.splits)

lemma supabase_create_post_failed_unchanged:
  "fst (supabase_create_post flt now uid body f db) = Inl e \<Longrightarrow>
   snd (supabase_create_post flt now uid body f db) = db"
  by (auto simp: supabase_create_post_def Let_def split: if_splits option.splits)

lemma sqlite_create_post_owner:
  "isOwner_spec db uid f \<Longrightarrow> truthy (pb_title body) \<Longrightarrow> truthy (pb_content body) \<Longrightarrow>
   check_visibility (visibility_or_public (pb_visibility body)) = Some v \<Longrightarrow>
   1 \<notin> flt \<Longrightarrow> 2 \<notin> flt \<Longrightarrow>
   sqlite_create_post flt now uid body f db =
     (Inr (Suc (post_seq db)),
      db\<lparr>posts := posts db @ [new_post (Suc (post_seq db)) now f uid body v],
         post_seq := Suc (post_seq db)\<rparr>)"
  by (simp add: sqlite_create_post_def select_owner_membership_isOwner sqlite_insert_post_def
      Let_def)

lemma supabase_create_post_owner:
  assumes "unique_memberships db" "fanclubs db f \<noteq> None" "uid \<in> users db"
    and "isOwner_spec db uid f" "truthy (pb_title body)" "truthy (pb_content body)"
    and "check_visibility (visibility_or_public (pb_visibility body)) = Some v"
    and "1 \<notin> flt" "2 \<notin> flt"
  shows "supabase_create_post flt now uid body f db =
     (Inr (Suc (post_seq db)),
      db\<lparr>posts := posts db @ [new_post (Suc (post_seq db)) now f uid body v],
         post_seq := Suc (post_seq db)\<rparr>)"
  using assms(2-) supabase_single_owner [OF assms(1), of uid f]
  by (auto simp: supabase_create_post_def pg_insert_post_def sqlite_insert_post_def Let_def)

text \<open>
  C6. \<^verbatim>\<open>canPublish(u, f)\<close> is true iff \<open>u\<close> is the owner of \<open>f\<close>: post creation
  succeeds only for the fanclub's owner, and a publish attempt by any non-owner, an
  ordinary member included, fails with Forbidden. The owner is the user whose membership
  row has \<^verbatim>\<open>is_owner\<close> (the ledger's \<^verbatim>\<open>isOwner\<close>). On both servers: the owner lookup of the
  handler finds a row iff the user is the owner; a request answered with a new post's
  identifier came from the owner; a request of a non-owner that carries a title and a
  content is answered \<^verbatim>\<open>No_permission_403\<close> and changes nothing (on SQLite when the lookup
  itself does not fail); and the owner's request with a title, a content and a visibility
  the schema accepts is answered with the new post's identifier when no statement fails.
\<close>

theorem publish_only_owner:
  assumes "unique_memberships db"
  shows
    "(select_owner_membership uid f db \<noteq> None) = isOwner_spec db uid f \<and>
     (supabase_single (\<lambda>m. m_user_id m = uid \<and> m_fanclub_id m = f \<and> m_is_owner m)
        (memberships db) \<noteq> None) = isOwner_spec db uid f \<and>
     (\<forall>pid. fst (sqlite_create_post flt now uid body f db) = Inr pid \<longrightarrow> isOwner_spec db uid f) \<and>
     (\<forall>pid. fst (supabase_create_post flt now uid body f db) = Inr pid \<longrightarrow>
        isOwner_spec db uid f) \<and>
     (\<not> isOwner_spec db uid f \<and> truthy (pb_title body) \<and> truthy (pb_content body) \<longrightarrow>
        (1 \<notin> flt \<longrightarrow> sqlite_create_post flt now uid body f db = (Inl No_permission_403, db)) \<and>
        supabase_create_post flt now uid body f db = (Inl No_permission_403, db)) \<and>
     (isOwner_spec db uid f \<and> truthy (pb_title body) \<and> truthy (pb_content body) \<and>
      check_visibility (visibility_or_public (pb_visibility body)) \<noteq> None \<and>
      1 \<notin> flt \<and> 2 \<notin> flt \<longrightarrow>
        fst (sqlite_create_post flt now uid body f db) = Inr (Suc (post_seq db)) \<and>
        (fanclubs db f \<noteq> None \<and> uid \<in> users db \<longrightarrow>
           fst (supabase_create_post flt now uid body f db) = Inr (Suc (post_seq db))))"
proof -
  have a: "(select_owner_membership uid f db \<noteq> None) = isOwner_spec db uid f"
    by (simp del: not_None_eq add: select_owner_membership_isOwner)
  have b: "(supabase_single (\<lambda>m. m_user_id m = uid \<and> m_fanclub_id m = f \<and> m_is_owner m)
        (memberships db) \<noteq> None) = isOwner_spec db uid f"
    by (simp del: not_None_eq add: supabase_single_owner [OF assms])
  have c: "\<forall>pid. fst (sqlite_create_post flt now uid body f db) = Inr pid \<longrightarrow> isOwner_spec db uid f"
    by (intro allI impI) (rule sqlite_create_post_success_owner)
  have d: "\<forall>pid. fst (supabase_create_post flt now uid body f db) = Inr pid \<longrightarrow>
        isOwner_spec db uid f"
    by (intro allI impI) (rule supabase_create_post_success_owner)
  have e: "\<not> isOwner_spec db uid f \<and> truthy (pb_title body) \<and> truthy (pb_content body) \<longrightarrow>
        (1 \<notin> flt \<longrightarrow> sqlite_create_post flt now uid body f db = (Inl No_permission_403, db)) \<and>
        supabase_create_post flt now uid body f db = (Inl No_permission_403, db)"
    by (simp add: sqlite_create_post_not_owner supabase_create_post_not_owner)
  have g: "isOwner_spec db uid f \<and> truthy (pb_title body) \<and> truthy (pb_content body) \<and>
      check_visibility (visibility_or_public (pb_visibility body)) \<noteq> None \<and>
      1 \<notin> flt \<and> 2 \<notin> flt \<longrightarrow>
        fst (sqlite_create_post flt now uid body f db) = Inr (Suc (post_seq db)) \<and>
        (fanclubs db f \<noteq> None \<and> uid \<in> users db \<longrightarrow>
           fst (supabase_create_post flt now uid body f db) = Inr (Suc (post_seq db)))"
  proof (intro impI conjI)
    assume h: "isOwner_spec db uid f \<and> truthy (pb_title body) \<and> truthy (pb_content body) \<and>
      check_visibility (visibility_or_public (pb_visibility body)) \<noteq> None \<and>
      1 \<notin> flt \<and> 2 \<notin> flt"
    then have "check_visibility (visibility_or_public (pb_visibility body)) \<noteq> None"
      by (rule_tac conjunct1 [OF conjunct2 [OF conjunct2 [OF conjunct2]]])
    then obtain v where v: "check_visibility (visibility_or_public (pb_visibility body)) = Some v"
      by (cases "check_visibility (visibility_or_public (pb_visibility body))") simp_all
    from h v show "fst (sqlite_create_post flt now uid body f db) = Inr (Suc (post_seq db))"
      by (simp add: sqlite_create_post_owner)
    assume "fanclubs db f \<noteq> None \<and> uid \<in> users db"
    with h v show "fst (supabase_create_post flt now uid body f db) = Inr (Suc (post_seq db))"
      by (simp add: supabase_create_post_owner [OF assms])
  qed
  show ?thesis
    apply (intro conjI)
    apply (rule a)
    apply (rule b)
    apply (rule c)
    apply (rule d)
    apply (rule e)
    apply (rule g)
    done
qed

text \<open>Witness: in fanclub 1 the owner 1 publishes a members' post; the same request of
  the ordinary member 2 is answered \<^verbatim>\<open>No_permission_403\<close> and changes nothing.\<close>

theorem publish_only_owner_witness:
  "unique_memberships posts_db \<and> isOwner_spec posts_db 1 1 \<and>
   isMember_spec posts_db 2 1 \<and> \<not> isOwner_spec posts_db 2 1 \<and>
   select_owner_membership 1 1 posts_db \<noteq> None \<and>
   sqlite_create_post {} 30 2 members_body 1 posts_db = (Inl No_permission_403, posts_db) \<and>
   supabase_create_post {} 30 2 members_body 1 posts_db = (Inl No_permission_403, posts_db) \<and>
   fst (sqlite_create_post {} 30 1 members_body 1 posts_db) = Inr 3 \<and>
   fst (supabase_create_post {} 30 1 members_body 1 posts_db) = Inr 3"
proof -
  have u: "unique_memberships posts_db"
    by (simp add: unique_memberships_def posts_example_defs sqlite_membership_defs example_defs)
  have o: "isOwner_spec posts_db 1 1 \<and> isMember_spec posts_db 2 1 \<and> \<not> isOwner_spec posts_db 2 1"
    by (simp add: isOwner_spec_def isMember_spec_def posts_example_defs sqlite_membership_defs
        example_defs)
  have t: "truthy (pb_title members_body) \<and> truthy (pb_content members_body) \<and>
      check_visibility (visibility_or_public (pb_visibility members_body)) \<noteq> None"
    by (simp add: truthy_def members_body_def visibility_or_public_def check_visibility_def)
  have s: "fanclubs posts_db 1 \<noteq> None \<and> 1 \<in> users posts_db \<and> post_seq posts_db = 2"
    by (simp add: posts_example_defs sqlite_membership_defs example_defs)
  have e: "(1::nat) \<notin> {} \<and> (2::nat) \<notin> {}" by simp
  note a = publish_only_owner [OF u, of 1 1 "{}" 30 members_body]
  note b = publish_only_owner [OF u, of 2 1 "{}" 30 members_body]
  note a1 = a [THEN conjunct1]
  note a6 = a [THEN conjunct2, THEN conjunct2, THEN conjunct2, THEN conjunct2, THEN conjunct2]
  note b5 = b [THEN conjunct2, THEN conjunct2, THEN conjunct2, THEN conjunct2, THEN conjunct1]
  from a1 o have r0: "select_owner_membership 1 1 posts_db \<noteq> None" by simp
  from o t have "\<not> isOwner_spec posts_db 2 1 \<and> truthy (pb_title members_body) \<and>
      truthy (pb_content members_body)"
    by simp
  from b5 [rule_format, OF this] e have r1:
    "sqlite_create_post {} 30 2 members_body 1 posts_db = (Inl No_permission_403, posts_db) \<and>
     supabase_create_post {} 30 2 members_body 1 posts_db = (Inl No_permission_403, posts_db)"
    by simp
  from o t e have "isOwner_spec posts_db 1 1 \<and> truthy (pb_title members_body) \<and>
      truthy (pb_content members_body) \<and>
      check_visibility (visibility_or_public (pb_visibility members_body)) \<noteq> None \<and>
      (1::nat) \<notin> {} \<and> (2::nat) \<notin> {}"
    by simp
  from a6 [rule_format, OF this] s have r2:
    "fst (sqlite_create_post {} 30 1 members_body 1 posts_db) = Inr 3 \<and>
     fst (supabase_create_post {} 30 1 members_body 1 posts_db) = Inr 3"
    by simp
  from u o r0 r1 r2 show ?thesis by simp
qed

section \<open>The default visibility\<close>

lemma visibility_or_public_omitted:
  "\<not> truthy v \<Longrightarrow> check_visibility (visibility_or_public v) = Some Public"
  by (simp add: visibility_or_public_def check_visibility_def)

lemma sqlite_create_post_omitted:
  assumes "\<not> truthy (pb_visibility body)"
    and "fst (sqlite_create_post flt now uid body f db) = Inr pid"
  shows "posts (snd (sqlite_create_post flt now uid body f db)) =
         posts db @ [new_post pid now f uid body Public]"
  using assms(2) visibility_or_public_omitted [OF assms(1)]
  by (auto simp: sqlite_create_post_def sqlite_insert_post_def Let_def split: if_splits)

lemma supabase_create_post_omitted:
  assumes "\<not> truthy (pb_visibility body)"
    and "fst (supabase_create_post flt now uid body f db) = Inr pid"
  shows "posts (snd (supabase_create_post flt now uid body f db)) =
         posts db @ [new_post pid now f uid body Public]"
  using assms(2) visibility_or_public_omitted [OF assms(1)]
  by (auto simp: supabase_create_post_def pg_insert_post_def sqlite_insert_post_def Let_def
      split: if_splits)

text \<open>
  C10. When a post is created without a visibility (the field absent or empty in the
  request), it is stored with the visibility \<^verbatim>\<open>public\<close>. On both servers, for a request
  whose visibility is absent or empty: a request answered with a new post's identifier has
  appended exactly one post, with that identifier and the visibility \<^verbatim>\<open>Public\<close>; and
  the owner's request with a title and a content is so answered on SQLite when no
  statement fails (the omitted visibility never violates the \<^verbatim>\<open>CHECK\<close> of the column).
\<close>

theorem omitted_visibility_is_public:
  assumes "\<not> truthy (pb_visibility body)"
  shows
    "(\<forall>pid. fst (sqlite_create_post flt now uid body f db) = Inr pid \<longrightarrow>
        posts (snd (sqlite_create_post flt now uid body f db)) =
          posts db @ [new_post pid now f uid body Public]) \<and>
     (\<forall>pid. fst (supabase_create_post flt now uid body f db) = Inr pid \<longrightarrow>
        posts (snd (supabase_create_post flt now uid body f db)) =
          posts db @ [new_post pid now f uid body Public]) \<and>
     (\<forall>pid. p_id (new_post pid now f uid body Public) = pid \<and>
        p_visibility (new_post pid now f uid body Public) = Public) \<and>
     (isOwner_spec db uid f \<and> truthy (pb_title body) \<and> truthy (pb_content body) \<and>
      1 \<notin> flt \<and> 2 \<notin> flt \<longrightarrow>
        fst (sqlite_create_post flt now uid body f db) = Inr (Suc (post_seq db)))"
proof -
  have a: "\<forall>pid. fst (sqlite_create_post flt now uid body f db) = Inr pid \<longrightarrow>
        posts (snd (sqlite_create_post flt now uid body f db)) =
          posts db @ [new_post pid now f uid body Public]"
    by (intro allI impI) (rule sqlite_create_post_omitted [OF assms])
  have b: "\<forall>pid. fst (supabase_create_post flt now uid body f db) = Inr pid \<longrightarrow>
        posts (snd (supabase_create_post flt now uid body f db)) =
          posts db @ [new_post pid now f uid body Public]"
    by (intro allI impI) (rule supabase_create_post_omitted [OF assms])
  have c: "\<forall>pid. p_id (new_post pid now f uid body Public) = pid \<and>
        p_visibility (new_post pid now f uid body Public) = Public"
    by (simp add: new_post_def)
  have d: "isOwner_spec db uid f \<and> truthy (pb_title body) \<and> truthy (pb_content body) \<and>
      1 \<notin> flt \<and> 2 \<notin> flt \<longrightarrow>
        fst (sqlite_create_post flt now uid body f db) = Inr (Suc (post_seq db))"
    by (simp add: sqlite_create_post_owner [OF _ _ _ visibility_or_public_omitted [OF assms]])
  show ?thesis
    apply (intro conjI)
    apply (rule a)
    apply (rule b)
    apply (rule c)
    apply (rule d)
    done
qed

text \<open>Witness: the owner 1 publishes in fanclub 1 without a visibility, and with an empty
  one; the new post, the third, is stored as public.\<close>

theorem omitted_visibility_is_public_witness:
  "\<not> truthy (pb_visibility plain_body) \<and>
   \<not> truthy (pb_visibility (plain_body\<lparr>pb_visibility := Some []\<rparr>)) \<and>
   fst (sqlite_create_post {} 30 1 plain_body 1 posts_db) = Inr 3 \<and>
   map p_visibility (posts (snd (sqlite_create_post {} 30 1 plain_body 1 posts_db))) =
     [Public, Members, Public] \<and>
   fst (supabase_create_post {} 30 1 plain_body 1 posts_db) = Inr 3 \<and>
   map p_visibility (posts (snd (supabase_create_post {} 30 1 plain_body 1 posts_db))) =
     [Public, Members, Public] \<and>
   fst (sqlite_create_post {} 30 1 (plain_body\<lparr>pb_visibility := Some []\<rparr>) 1 posts_db) = Inr 3 \<and>
   map p_visibility
     (posts (snd (sqlite_create_post {} 30 1 (plain_body\<lparr>pb_visibility := Some []\<rparr>) 1 posts_db))) =
     [Public, Members, Public]"
proof -
  have h: "\<not> truthy (pb_visibility plain_body)"
    by (simp add: truthy_def plain_body_def)
  have h': "\<not> truthy (pb_visibility (plain_body\<lparr>pb_visibility := Some []\<rparr>))"
    by (simp add: truthy_def)
  have o: "isOwner_spec posts_db 1 1"
    by (simp add: isOwner_spec_def posts_example_defs sqlite_membership_defs example_defs)
  have t: "truthy (pb_title plain_body) \<and> truthy (pb_content plain_body)"
    by (simp add: truthy_def plain_body_def)
  have s: "post_seq posts_db = 2 \<and> map p_visibility (posts posts_db) = [Public, Members]"
    by (simp add: posts_example_defs)
  have p: "fst (supabase_create_post {} 30 1 plain_body 1 posts_db) = Inr 3"
    by (simp add: supabase_create_post_def supabase_single_def pg_insert_post_def
        sqlite_insert_post_def visibility_or_public_def check_visibility_def truthy_def
        plain_body_def posts_example_defs sqlite_membership_defs example_defs)
  have e: "(1::nat) \<notin> {} \<and> (2::nat) \<notin> {}" by simp
  note a = omitted_visibility_is_public [OF h, of "{}" 30 1 1 posts_db]
  note b = omitted_visibility_is_public [OF h', of "{}" 30 1 1 posts_db]
  note a1 = a [THEN conjunct1, rule_format]
  note a2 = a [THEN conjunct2, THEN conjunct1, rule_format]
  note a3 = a [THEN conjunct2, THEN conjunct2, THEN conjunct1, rule_format]
  note a4 = a [THEN conjunct2, THEN conjunct2, THEN conjunct2, rule_format]
  note b1 = b [THEN conjunct1, rule_format]
  note b3 = b [THEN conjunct2, THEN conjunct2, THEN conjunct1, rule_format]
  note b4 = b [THEN conjunct2, THEN conjunct2, THEN conjunct2, rule_format]
  from o t e have g: "isOwner_spec posts_db 1 1 \<and> truthy (pb_title plain_body) \<and>
      truthy (pb_content plain_body) \<and> (1::nat) \<notin> {} \<and> (2::nat) \<notin> {}"
    by simp
  from a4 [OF g] s have r1: "fst (sqlite_create_post {} 30 1 plain_body 1 posts_db) = Inr 3"
    by simp
  from a1 [OF r1] a3 [of 3] s have r2:
    "map p_visibility (posts (snd (sqlite_create_post {} 30 1 plain_body 1 posts_db))) =
     [Public, Members, Public]"
    by simp
  from a2 [OF p] a3 [of 3] s have r3:
    "map p_visibility (posts (snd (supabase_create_post {} 30 1 plain_body 1 posts_db))) =
     [Public, Members, Public]"
    by simp
  from g have g': "isOwner_spec posts_db 1 1 \<and>
      truthy (pb_title (plain_body\<lparr>pb_visibility := Some []\<rparr>)) \<and>
      truthy (pb_content (plain_body\<lparr>pb_visibility := Some []\<rparr>)) \<and>
      (1::nat) \<notin> {} \<and> (2::nat) \<notin> {}"
    by simp
  from b4 [OF g'] s
  have r4: "fst (sqlite_create_post {} 30 1 (plain_body\<lparr>pb_visibility := Some []\<rparr>) 1 posts_db) = Inr 3"
    by simp
  from b1 [OF r4] b3 [of 3] s have r5: "map p_visibility
     (posts (snd (sqlite_create_post {} 30 1 (plain_body\<lparr>pb_visibility := Some []\<rparr>) 1 posts_db))) =
     [Public, Members, Public]"
    by simp
  from h h' p r1 r2 r3 r4 r5 show ?thesis by simp
qed

end
